theory Spec2Isabelle
  imports Main "HOL-Library.Sublist"
begin

section \<open>The Handlebars tokenizer state (vs/languages/handlebars/common/handlebars.ts)\<close>

text \<open>
  The TypeScript strings are sequences of code units; a \<^typ>\<open>char\<close> stands for a code
  unit in the range 0..255, so a line is a \<^typ>\<open>string\<close>.
\<close>

subsection \<open>Data\<close>

text \<open>\<^verbatim>\<open>export enum States { HTML, Expression, UnescapedExpression }\<close>\<close>

datatype States = HTML | Expression | UnescapedExpression

text \<open>
  Modelled from the spec: \<^verbatim>\<open>htmlMode.States\<close>, the coarse phase enum of the host markup
  state, is declared in the html mode, which is not part of the sources at hand. Only the
  member \<^verbatim>\<open>Content\<close> is named by handlebars.ts; the other phases are kept apart by a number.
\<close>

datatype htmlStates = Content | OtherPhase nat

text \<open>
  Modelled from the spec: the fields of \<^verbatim>\<open>htmlMode.State\<close> are those the constructor of
  \<^verbatim>\<open>HandlebarsState\<close> hands to \<^verbatim>\<open>super(...)\<close> and \<^verbatim>\<open>makeClone\<close> reads back.
\<close>

record State =
  modeId :: string
  kind :: htmlStates
  lastTagName :: string
  lastAttributeName :: string
  embeddedContentType :: string
  attributeValueQuote :: string
  attributeValueLength :: int

text \<open>\<^verbatim>\<open>class HandlebarsState extends htmlMode.State\<close>, with the one field of its own.\<close>

record HandlebarsState = State +
  handlebarsKind :: States

text \<open>The constructor, with its parameters in the order of the source.\<close>

definition newHandlebarsState ::
  "string \<Rightarrow> htmlStates \<Rightarrow> States \<Rightarrow> string \<Rightarrow> string \<Rightarrow> string \<Rightarrow> string \<Rightarrow> int \<Rightarrow> HandlebarsState" where
  "newHandlebarsState mid k hk tagName attrName contentType quote len =
     \<lparr> modeId = mid, kind = k, lastTagName = tagName, lastAttributeName = attrName,
       embeddedContentType = contentType, attributeValueQuote = quote,
       attributeValueLength = len, handlebarsKind = hk \<rparr>"

text \<open>
  A value of the interface \<^verbatim>\<open>modes.IState\<close>: an instance of \<^verbatim>\<open>HandlebarsState\<close>, a plain
  \<^verbatim>\<open>htmlMode.State\<close>, or a state of some other mode (known by its mode id only).
\<close>

datatype IState =
    IHandlebarsState HandlebarsState
  | IHtmlState State
  | IForeignState string

subsection \<open>makeClone and equals\<close>

definition makeClone :: "HandlebarsState \<Rightarrow> HandlebarsState" where
  "makeClone this =
     newHandlebarsState (modeId this) (kind this) (handlebarsKind this) (lastTagName this)
       (lastAttributeName this) (embeddedContentType this) (attributeValueQuote this)
       (attributeValueLength this)"

text \<open>
  Modelled from the spec: \<^verbatim>\<open>htmlMode.State.equals\<close> (the \<^verbatim>\<open>super.equals\<close> of the source) is
  not part of the sources at hand. The inherited markup state is comparable: two markup
  states are equal when every inherited field compares equal. The base class sees the
  inherited fields only.
\<close>

definition State_equals :: "State \<Rightarrow> State \<Rightarrow> bool" where
  "State_equals a b \<longleftrightarrow>
     modeId a = modeId b \<and> kind a = kind b \<and> lastTagName a = lastTagName b \<and>
     lastAttributeName a = lastAttributeName b \<and>
     embeddedContentType a = embeddedContentType b \<and>
     attributeValueQuote a = attributeValueQuote b \<and>
     attributeValueLength a = attributeValueLength b"

text \<open>
  \<^verbatim>\<open>if (other instanceof HandlebarsState) { return ( super.equals(other) ); } return false;\<close>
\<close>

fun equals :: "HandlebarsState \<Rightarrow> IState \<Rightarrow> bool" where
  "equals this (IHandlebarsState other) = State_equals (State.truncate this) (State.truncate other)"
| "equals this (IHtmlState other) = False"
| "equals this (IForeignState other) = False"

subsection \<open>The object store\<close>

text \<open>
  States are objects, mutated in place. Where aliasing matters the objects live in a store:
  a reference is an index into the list of allocated objects, \<^verbatim>\<open>new\<close> appends.
\<close>

type_synonym store = "HandlebarsState list"

definition alloc :: "store \<Rightarrow> HandlebarsState \<Rightarrow> store \<times> nat" where
  "alloc h obj = (h @ [obj], length h)"

text \<open>\<^verbatim>\<open>ref.makeClone()\<close>: a \<^verbatim>\<open>new HandlebarsState\<close> built from the fields of the receiver.\<close>

definition makeCloneRef :: "store \<Rightarrow> nat \<Rightarrow> (store \<times> nat) option" where
  "makeCloneRef h r = (if r < length h then Some (alloc h (makeClone (h ! r))) else None)"

text \<open>An assignment to fields of the object behind a reference.\<close>

definition mutate :: "store \<Rightarrow> nat \<Rightarrow> (HandlebarsState \<Rightarrow> HandlebarsState) \<Rightarrow> store" where
  "mutate h r f = (if r < length h then h[r := f (h ! r)] else h)"

subsection \<open>The cursor\<close>

text \<open>
  Modelled from the spec: the stream \<^verbatim>\<open>modes.IStream\<close> is not part of the sources at hand.
  It is the cursor of section 4.2: the text of the line, which never changes, and a
  position in it.
\<close>

record LineStream =
  source :: string
  pos :: nat

text \<open>The text from the position of the cursor to the end of the line.\<close>

definition remaining :: "LineStream \<Rightarrow> string" where
  "remaining stream = drop (pos stream) (source stream)"

text \<open>Modelled from the spec: the cursor is at the end of the line.\<close>

definition eos :: "LineStream \<Rightarrow> bool" where
  "eos stream \<longleftrightarrow> length (source stream) \<le> pos stream"

text \<open>
  Modelled from the spec: ``peek next character without consuming''. At the end of the
  line there is no next character, and the comparisons of the tokenizer fail.
\<close>

definition peek :: "LineStream \<Rightarrow> char option" where
  "peek stream = (case remaining stream of [] \<Rightarrow> None | c # _ \<Rightarrow> Some c)"

text \<open>
  Modelled from the spec: ``attempt to consume an exact literal (returns the consumed text
  or empty on mismatch, not advancing on mismatch)''.
\<close>

definition advanceIfString :: "string \<Rightarrow> LineStream \<Rightarrow> string \<times> LineStream" where
  "advanceIfString literal stream =
     (if take (length literal) (remaining stream) = literal
      then (literal, stream\<lparr>pos := pos stream + length literal\<rparr>)
      else ('''', stream))"

text \<open>
  Modelled from the spec: ``consume while a character-class predicate holds (returns
  consumed text, possibly empty)''.
\<close>

definition advanceWhile :: "(char \<Rightarrow> bool) \<Rightarrow> LineStream \<Rightarrow> string \<times> LineStream" where
  "advanceWhile p stream =
     (let consumed = takeWhile p (remaining stream)
      in (consumed, stream\<lparr>pos := pos stream + length consumed\<rparr>))"

text \<open>
  The class \<^verbatim>\<open>\s\<close> of a JavaScript regular expression, on the code units 0..255: tab, line
  feed, vertical tab, form feed, carriage return, space and no-break space.
\<close>

definition isWhitespace :: "char \<Rightarrow> bool" where
  "isWhitespace c \<longleftrightarrow> c \<in> set [CHR 0x09, CHR 0x0A, CHR 0x0B, CHR 0x0C, CHR 0x0D, CHR 0x20, CHR 0xA0]"

text \<open>Modelled from the spec: ``consume while whitespace''.\<close>

definition skipWhitespace :: "LineStream \<Rightarrow> string \<times> LineStream" where
  "skipWhitespace stream = advanceWhile isWhitespace stream"

text \<open>
  Modelled from the spec: ``step backward by N characters''. The tokenizer steps back only
  by the four characters it has just consumed.
\<close>

definition goBack :: "nat \<Rightarrow> LineStream \<Rightarrow> LineStream" where
  "goBack n stream = stream\<lparr>pos := pos stream - n\<rparr>"

text \<open>The regular expression \<^verbatim>\<open>/^[^\s}]/\<close>, as a test of one character.\<close>

definition notSpaceOrBrace :: "char \<Rightarrow> bool" where
  "notSpaceOrBrace c \<longleftrightarrow> \<not> isWhitespace c \<and> c \<noteq> CHR ''}''"

subsection \<open>Token types\<close>

text \<open>
  Modelled from the spec: the constants of \<^verbatim>\<open>handlebarsTokenTypes\<close> are not part of the
  sources at hand; they are four token kinds, distinct from each other. Any other token
  type is a string: \<^verbatim>\<open>''\<close> for whitespace, and whatever the host tokenizer answers.
\<close>

datatype tokenType = EMBED | EMBED_UNESCAPED | KEYWORD | VARIABLE | Plain string

text \<open>The return statement of \<^verbatim>\<open>tokenize\<close> that produced a result.\<close>

datatype Rule =
    OpenUnescaped | OpenEscaped | CloseEscaped | CloseUnescaped
  | Whitespace | HashKeyword | SlashKeyword | ElseKeyword | Variable
  | Delegated

subsection \<open>tokenize\<close>

text \<open>
  The host tokenizer \<^verbatim>\<open>htmlMode.State.tokenize\<close> is not part of the sources at hand and is a
  parameter: from the inherited fields and the cursor it answers a token type, the
  inherited fields as it leaves them, and the position where it leaves the cursor.
\<close>

type_synonym host = "State \<Rightarrow> LineStream \<Rightarrow> tokenType \<times> State \<times> nat"

type_synonym outcome = "Rule \<times> tokenType \<times> HandlebarsState \<times> LineStream"

definition withInherited :: "State \<Rightarrow> HandlebarsState \<Rightarrow> HandlebarsState" where
  "withInherited b this =
     this\<lparr> modeId := modeId b, kind := kind b, lastTagName := lastTagName b,
           lastAttributeName := lastAttributeName b,
           embeddedContentType := embeddedContentType b,
           attributeValueQuote := attributeValueQuote b,
           attributeValueLength := attributeValueLength b \<rparr>"

text \<open>\<^verbatim>\<open>return super.tokenize(stream);\<close>\<close>

definition superTokenize :: "host \<Rightarrow> HandlebarsState \<Rightarrow> LineStream \<Rightarrow> outcome" where
  "superTokenize super this stream =
     (case super (State.truncate this) stream of
        (t, b, p) \<Rightarrow> (Delegated, t, withInherited b this, stream\<lparr>pos := p\<rparr>))"

text \<open>
  The end of the second case: \<^verbatim>\<open>if(stream.advanceWhile(/^[^\s}]/).length > 0)\<close>, and the
  \<^verbatim>\<open>break\<close> to the last line otherwise.
\<close>

definition tokenizeVariable :: "host \<Rightarrow> HandlebarsState \<Rightarrow> LineStream \<Rightarrow> outcome" where
  "tokenizeVariable super this stream =
     (case advanceWhile notSpaceOrBrace stream of
        (name, stream1) \<Rightarrow>
          if length name > 0 then (Variable, VARIABLE, this, stream1)
          else superTokenize super this stream1)"

text \<open>\<^verbatim>\<open>if(stream.advanceIfString('else')) { ... }\<close> and what follows it.\<close>

definition tokenizeElse :: "host \<Rightarrow> HandlebarsState \<Rightarrow> LineStream \<Rightarrow> outcome" where
  "tokenizeElse super this stream =
     (case advanceIfString ''else'' stream of
        (matched, stream1) \<Rightarrow>
          if matched \<noteq> '''' then
            (let next = peek stream1 in
             if next = Some CHR '' '' \<or> next = Some CHR 0x09 \<or> next = Some CHR ''}''
             then (ElseKeyword, KEYWORD, this, stream1)
             else tokenizeVariable super this (goBack 4 stream1))
          else tokenizeVariable super this stream1)"

text \<open>The two tests of \<^verbatim>\<open>stream.peek()\<close>, for \<^verbatim>\<open>#\<close> and for \<^verbatim>\<open>/\<close>.\<close>

definition tokenizeHelper :: "host \<Rightarrow> HandlebarsState \<Rightarrow> LineStream \<Rightarrow> outcome" where
  "tokenizeHelper super this stream =
     (if peek stream = Some CHR ''#''
      then (case advanceWhile notSpaceOrBrace stream of
              (_, stream1) \<Rightarrow> (HashKeyword, KEYWORD, this, stream1))
      else if peek stream = Some CHR ''/''
      then (case advanceWhile notSpaceOrBrace stream of
              (_, stream1) \<Rightarrow> (SlashKeyword, KEYWORD, this, stream1))
      else tokenizeElse super this stream)"

text \<open>
  \<^verbatim>\<open>case States.Expression: case States.UnescapedExpression:\<close> The operator \<^verbatim>\<open>&&\<close> calls
  \<^verbatim>\<open>advanceIfString\<close> only when the test of the kind before it holds.
\<close>

definition tokenizeExpression :: "host \<Rightarrow> HandlebarsState \<Rightarrow> LineStream \<Rightarrow> outcome" where
  "tokenizeExpression super this stream =
     (case (if handlebarsKind this = Expression then advanceIfString ''}}'' stream
            else ('''', stream)) of
        (closing2, stream1) \<Rightarrow>
          if handlebarsKind this = Expression \<and> length closing2 > 0
          then (CloseEscaped, EMBED, this\<lparr>handlebarsKind := HTML\<rparr>, stream1)
          else
            (case (if handlebarsKind this = UnescapedExpression
                   then advanceIfString ''}}}'' stream1 else ('''', stream1)) of
               (closing3, stream2) \<Rightarrow>
                 if handlebarsKind this = UnescapedExpression \<and> length closing3 > 0
                 then (CloseUnescaped, EMBED_UNESCAPED, this\<lparr>handlebarsKind := HTML\<rparr>, stream2)
                 else
                   (case skipWhitespace stream2 of
                      (blank, stream3) \<Rightarrow>
                        if length blank > 0 then (Whitespace, Plain '''', this, stream3)
                        else tokenizeHelper super this stream3)))"

text \<open>\<^verbatim>\<open>case States.HTML:\<close>\<close>

definition tokenizeHTML :: "host \<Rightarrow> HandlebarsState \<Rightarrow> LineStream \<Rightarrow> outcome" where
  "tokenizeHTML super this stream =
     (case advanceIfString ''{{{'' stream of
        (opening3, stream1) \<Rightarrow>
          if length opening3 > 0
          then (OpenUnescaped, EMBED_UNESCAPED, this\<lparr>handlebarsKind := UnescapedExpression\<rparr>, stream1)
          else
            (case advanceIfString ''{{'' stream1 of
               (opening2, stream2) \<Rightarrow>
                 if length opening2 > 0
                 then (OpenEscaped, EMBED, this\<lparr>handlebarsKind := Expression\<rparr>, stream2)
                 else superTokenize super this stream2))"

text \<open>
  \<^verbatim>\<open>public tokenize(stream)\<close>: the state object and the stream are mutated in place by the
  source and are handed back here, after the label of the return statement and the token
  type.
\<close>

definition tokenize :: "host \<Rightarrow> HandlebarsState \<Rightarrow> LineStream \<Rightarrow> outcome" where
  "tokenize super this stream =
     (case handlebarsKind this of
        HTML \<Rightarrow> tokenizeHTML super this stream
      | Expression \<Rightarrow> tokenizeExpression super this stream
      | UnescapedExpression \<Rightarrow> tokenizeExpression super this stream)"

subsection \<open>The loop over a line\<close>

text \<open>
  Modelled from the spec: the loop of the host editor is not part of the sources at hand.
  ``For each line, the host editor repeatedly calls tokenize with the current cursor
  position and the state left over from the previous call''; ``if neither this core nor
  the delegated fallback consumes any character for a given cursor position, the host must
  treat this as a defensive termination condition (advance one character and emit an
  unknown/plain token)''. A token is the label of the return statement that produced it
  (none for a defensive step of the loop), its type, and the text between the position of
  the cursor before the call and its position after it.
\<close>

type_synonym token = "Rule option \<times> tokenType \<times> string"

definition span :: "LineStream \<Rightarrow> LineStream \<Rightarrow> string" where
  "span earlier later = take (pos later - pos earlier) (remaining earlier)"

function tokenizeLine :: "host \<Rightarrow> HandlebarsState \<Rightarrow> LineStream \<Rightarrow> token list \<times> HandlebarsState" where
  "tokenizeLine super state stream =
     (if eos stream then ([], state)
      else
        (case tokenize super state stream of
           (r, t, state1, stream1) \<Rightarrow>
             if pos stream < pos stream1
             then (case tokenizeLine super state1 stream1 of
                     (tokens, final) \<Rightarrow> ((Some r, t, span stream stream1) # tokens, final))
             else (case tokenizeLine super state1 (stream\<lparr>pos := pos stream + 1\<rparr>) of
                     (tokens, final) \<Rightarrow>
                       ((None, Plain '''', span stream (stream\<lparr>pos := pos stream + 1\<rparr>)) # tokens,
                        final))))"
  by pat_completeness auto
termination
proof (relation "measure (\<lambda>(super, state, stream). length (source stream) - pos stream)")
  show "wf (measure (\<lambda>(super, state, stream). length (source stream) - pos stream))"
    by simp
next
  fix super :: host and state stream r y t ya state1 stream1
  assume inside: "\<not> eos stream" and forward: "pos stream < pos stream1"
    and "(r, y) = tokenize super state stream" and "(t, ya) = y" and "(state1, stream1) = ya"
  then have result: "stream1 = snd (snd (snd (tokenize super state stream)))"
    by (metis snd_conv)
  have "source (snd (snd (snd (tokenize super state stream)))) = source stream"
    by (simp add: tokenize_def tokenizeHTML_def tokenizeExpression_def tokenizeHelper_def
        tokenizeElse_def tokenizeVariable_def superTokenize_def skipWhitespace_def
        advanceIfString_def advanceWhile_def goBack_def Let_def case_prod_beta
        split: States.splits)
  with result have "source stream1 = source stream"
    by simp
  with inside forward
  show "((super, state1, stream1), (super, state, stream))
          \<in> measure (\<lambda>(super, state, stream). length (source stream) - pos stream)"
    by (simp add: eos_def)
next
  fix super :: host and state state1 :: HandlebarsState and stream
  assume "\<not> eos stream"
  then show "((super, state1, stream\<lparr>pos := pos stream + 1\<rparr>), (super, state, stream))
          \<in> measure (\<lambda>(super, state, stream). length (source stream) - pos stream)"
    by (simp add: eos_def)
qed

declare tokenizeLine.simps [simp del]

subsection \<open>The mode\<close>

text \<open>
  \<^verbatim>\<open>getInitialState()\<close>; the argument is the identifier of the mode, \<^verbatim>\<open>this.getId()\<close>.
\<close>

definition getInitialState :: "string \<Rightarrow> HandlebarsState" where
  "getInitialState mid = newHandlebarsState mid Content HTML '''' '''' '''' '''' 0"

text \<open>
  Modelled from the spec: \<^verbatim>\<open>ILeavingNestedModeData\<close> is not part of the sources at hand.
  It carries the state after the nested mode, and what else it carries is not touched by
  handlebars.ts.
\<close>

record 'd ILeavingNestedModeData =
  nestedData :: 'd
  stateAfterNestedMode :: IState

text \<open>
  \<^verbatim>\<open>getLeavingNestedModeData(line, state)\<close>. The method of the super class is not part of the
  sources at hand and is a parameter; it answers \<^verbatim>\<open>null\<close> (\<open>None\<close>) or the data.
\<close>

definition getLeavingNestedModeData ::
  "(string \<Rightarrow> IState \<Rightarrow> 'd ILeavingNestedModeData option) \<Rightarrow> string \<Rightarrow> string \<Rightarrow> IState
     \<Rightarrow> 'd ILeavingNestedModeData option" where
  "getLeavingNestedModeData superLeaving mid line state =
     (case superLeaving line state of
        None \<Rightarrow> None
      | Some leavingNestedModeData \<Rightarrow>
          Some (leavingNestedModeData
            \<lparr>stateAfterNestedMode :=
               IHandlebarsState (newHandlebarsState mid Content HTML '''' '''' '''' '''' 0)\<rparr>))"

text \<open>
  A host tokenizer to run examples with: it takes one character as plain text and leaves
  the inherited fields as they are.
\<close>

definition oneCharHost :: host where
  "oneCharHost b stream = (Plain ''text'', b, pos stream + 1)"

section \<open>Auxiliary facts\<close>

subsection \<open>The cursor\<close>

lemma advanceIfString_prefix:
  "advanceIfString literal stream =
     (if prefix literal (remaining stream)
      then (literal, stream\<lparr>pos := pos stream + length literal\<rparr>) else ('''', stream))"
proof -
  have "take (length literal) (remaining stream) = literal \<longleftrightarrow> prefix literal (remaining stream)"
    by (metis append_eq_conv_conj prefix_def append_take_drop_id)
  then show ?thesis
    by (simp add: advanceIfString_def)
qed

lemma prefix_remaining_bound:
  assumes "prefix literal (remaining stream)" and "literal \<noteq> []"
  shows "pos stream + length literal \<le> length (source stream)"
proof -
  from assms(1) obtain zs where "remaining stream = literal @ zs"
    by (auto simp: prefix_def)
  then have "length (source stream) - pos stream = length literal + length zs"
    by (metis remaining_def length_drop length_append)
  moreover from assms(2) have "0 < length literal" by simp
  ultimately show ?thesis by arith
qed

lemma takeWhile_remaining_bound:
  assumes "takeWhile p (remaining stream) \<noteq> []"
  shows "pos stream + length (takeWhile p (remaining stream)) \<le> length (source stream)"
proof -
  from assms have "remaining stream \<noteq> []" by auto
  then have "pos stream < length (source stream)" by (simp add: remaining_def)
  moreover have "length (takeWhile p (remaining stream)) \<le> length (remaining stream)"
    by (rule length_takeWhile_le)
  ultimately show ?thesis by (simp add: remaining_def)
qed

lemma remaining_advance:
  "remaining (stream\<lparr>pos := pos stream + n\<rparr>) = drop n (remaining stream)"
  by (simp add: remaining_def add.commute)

lemma peek_Some: "peek stream = Some c \<longleftrightarrow> (\<exists>rest. remaining stream = c # rest)"
  by (auto simp: peek_def split: list.splits)

lemma peek_takeWhile:
  "peek stream = Some c \<Longrightarrow> p c \<Longrightarrow> takeWhile p (remaining stream) \<noteq> []"
  by (auto simp: peek_Some)

lemma notSpaceOrBrace_letters:
  "notSpaceOrBrace CHR ''#''" "notSpaceOrBrace CHR ''/''" "notSpaceOrBrace CHR ''e''"
  by (simp_all add: notSpaceOrBrace_def isWhitespace_def)

subsection \<open>The state\<close>

lemma makeClone_fields: "makeClone this = this"
  by (cases this) (simp add: makeClone_def newHandlebarsState_def)

subsection \<open>One call of tokenize\<close>

lemma tokenizeVariable_advances:
  assumes "tokenizeVariable super this stream = (r, t, this', stream')" and "r \<noteq> Delegated"
  shows "r = Variable \<and> t = VARIABLE \<and> this' = this \<and>
         stream' = stream\<lparr>pos := pos stream + length (takeWhile notSpaceOrBrace (remaining stream))\<rparr> \<and>
         takeWhile notSpaceOrBrace (remaining stream) \<noteq> []"
  using assms
  by (auto simp: tokenizeVariable_def advanceWhile_def Let_def superTokenize_def
      split: if_splits prod.splits)

lemma goBack_else:
  "prefix ''else'' (remaining stream) \<Longrightarrow> goBack 4 (snd (advanceIfString ''else'' stream)) = stream"
  by (simp add: advanceIfString_prefix goBack_def)

lemma tokenizeElse_advances:
  assumes "tokenizeElse super this stream = (r, t, this', stream')" and "r \<noteq> Delegated"
  shows "(r = ElseKeyword \<and> t = KEYWORD \<and> this' = this \<and> prefix ''else'' (remaining stream) \<and>
          stream' = stream\<lparr>pos := pos stream + 4\<rparr>) \<or>
         (r = Variable \<and> t = VARIABLE \<and> this' = this \<and>
          stream' = stream\<lparr>pos := pos stream + length (takeWhile notSpaceOrBrace (remaining stream))\<rparr> \<and>
          takeWhile notSpaceOrBrace (remaining stream) \<noteq> [])"
  using assms
  by (auto simp: tokenizeElse_def advanceIfString_prefix goBack_def Let_def
      split: if_splits dest!: tokenizeVariable_advances)

lemma tokenizeHelper_cases:
  assumes "tokenizeHelper super this stream = (r, t, this', stream')"
  shows "(r = HashKeyword \<and> t = KEYWORD \<and> this' = this \<and> peek stream = Some CHR ''#'' \<and>
          stream' = stream\<lparr>pos := pos stream + length (takeWhile notSpaceOrBrace (remaining stream))\<rparr>) \<or>
         (r = SlashKeyword \<and> t = KEYWORD \<and> this' = this \<and> peek stream = Some CHR ''/'' \<and>
          stream' = stream\<lparr>pos := pos stream + length (takeWhile notSpaceOrBrace (remaining stream))\<rparr>) \<or>
         (r = ElseKeyword \<and> t = KEYWORD \<and> this' = this \<and> prefix ''else'' (remaining stream) \<and>
          stream' = stream\<lparr>pos := pos stream + 4\<rparr>) \<or>
         (r = Variable \<and> t = VARIABLE \<and> this' = this \<and>
          stream' = stream\<lparr>pos := pos stream + length (takeWhile notSpaceOrBrace (remaining stream))\<rparr> \<and>
          takeWhile notSpaceOrBrace (remaining stream) \<noteq> []) \<or>
         (r = Delegated \<and> superTokenize super this stream = (r, t, this', stream'))"
proof (cases "r = Delegated")
  case False
  with assms show ?thesis
    by (auto simp: tokenizeHelper_def advanceWhile_def Let_def
      split: if_splits dest!: tokenizeElse_advances)
next
  case True
  with assms show ?thesis
    by (auto simp: tokenizeHelper_def advanceWhile_def Let_def tokenizeElse_def
        tokenizeVariable_def advanceIfString_prefix goBack_def
      split: if_splits)
qed

lemma tokenizeExpression_cases:
  assumes "tokenizeExpression super this stream = (r, t, this', stream')"
  shows "(r = CloseEscaped \<and> t = EMBED \<and> handlebarsKind this = Expression \<and>
          this' = this\<lparr>handlebarsKind := HTML\<rparr> \<and> prefix ''}}'' (remaining stream) \<and>
          stream' = stream\<lparr>pos := pos stream + 2\<rparr>) \<or>
         (r = CloseUnescaped \<and> t = EMBED_UNESCAPED \<and> handlebarsKind this = UnescapedExpression \<and>
          this' = this\<lparr>handlebarsKind := HTML\<rparr> \<and> prefix ''}}}'' (remaining stream) \<and>
          stream' = stream\<lparr>pos := pos stream + 3\<rparr>) \<or>
         (r = Whitespace \<and> t = Plain '''' \<and> this' = this \<and>
          stream' = stream\<lparr>pos := pos stream + length (takeWhile isWhitespace (remaining stream))\<rparr> \<and>
          takeWhile isWhitespace (remaining stream) \<noteq> []) \<or>
         (r \<notin> {CloseEscaped, CloseUnescaped, Whitespace} \<and>
          tokenizeHelper super this stream = (r, t, this', stream'))"
  using assms
  by (auto simp: tokenizeExpression_def advanceIfString_prefix skipWhitespace_def
      advanceWhile_def Let_def split: if_splits dest: tokenizeHelper_cases)

lemma tokenizeHTML_cases:
  assumes "tokenizeHTML super this stream = (r, t, this', stream')"
  shows "(r = OpenUnescaped \<and> t = EMBED_UNESCAPED \<and>
          this' = this\<lparr>handlebarsKind := UnescapedExpression\<rparr> \<and>
          prefix ''{{{'' (remaining stream) \<and> stream' = stream\<lparr>pos := pos stream + 3\<rparr>) \<or>
         (r = OpenEscaped \<and> t = EMBED \<and> this' = this\<lparr>handlebarsKind := Expression\<rparr> \<and>
          prefix ''{{'' (remaining stream) \<and> \<not> prefix ''{{{'' (remaining stream) \<and>
          stream' = stream\<lparr>pos := pos stream + 2\<rparr>) \<or>
         (r = Delegated \<and> superTokenize super this stream = (r, t, this', stream'))"
  using assms
  by (auto simp: tokenizeHTML_def advanceIfString_prefix superTokenize_def
      split: if_splits prod.splits)

lemma superTokenize_cases:
  assumes "superTokenize super this stream = (r, t, this', stream')"
  shows "r = Delegated \<and> handlebarsKind this' = handlebarsKind this \<and>
         source stream' = source stream \<and>
         pos stream' = snd (snd (super (State.truncate this) stream))"
  using assms by (auto simp: superTokenize_def withInherited_def split: prod.splits)

lemma tokenize_cases [consumes 1, case_names OpenUnescaped OpenEscaped CloseEscaped
    CloseUnescaped Whitespace HashKeyword SlashKeyword ElseKeyword Variable Delegated]:
  assumes "tokenize super this stream = (r, t, this', stream')"
  obtains
    "r = OpenUnescaped" "t = EMBED_UNESCAPED" "handlebarsKind this = HTML"
      "this' = this\<lparr>handlebarsKind := UnescapedExpression\<rparr>"
      "prefix ''{{{'' (remaining stream)" "stream' = stream\<lparr>pos := pos stream + 3\<rparr>"
  | "r = OpenEscaped" "t = EMBED" "handlebarsKind this = HTML"
      "this' = this\<lparr>handlebarsKind := Expression\<rparr>"
      "prefix ''{{'' (remaining stream)" "\<not> prefix ''{{{'' (remaining stream)"
      "stream' = stream\<lparr>pos := pos stream + 2\<rparr>"
  | "r = CloseEscaped" "t = EMBED" "handlebarsKind this = Expression"
      "this' = this\<lparr>handlebarsKind := HTML\<rparr>"
      "prefix ''}}'' (remaining stream)" "stream' = stream\<lparr>pos := pos stream + 2\<rparr>"
  | "r = CloseUnescaped" "t = EMBED_UNESCAPED" "handlebarsKind this = UnescapedExpression"
      "this' = this\<lparr>handlebarsKind := HTML\<rparr>"
      "prefix ''}}}'' (remaining stream)" "stream' = stream\<lparr>pos := pos stream + 3\<rparr>"
  | "r = Whitespace" "t = Plain ''''" "handlebarsKind this \<noteq> HTML" "this' = this"
      "takeWhile isWhitespace (remaining stream) \<noteq> []"
      "stream' = stream\<lparr>pos := pos stream + length (takeWhile isWhitespace (remaining stream))\<rparr>"
  | "r = HashKeyword" "t = KEYWORD" "handlebarsKind this \<noteq> HTML" "this' = this"
      "peek stream = Some CHR ''#''"
      "stream' = stream\<lparr>pos := pos stream + length (takeWhile notSpaceOrBrace (remaining stream))\<rparr>"
  | "r = SlashKeyword" "t = KEYWORD" "handlebarsKind this \<noteq> HTML" "this' = this"
      "peek stream = Some CHR ''/''"
      "stream' = stream\<lparr>pos := pos stream + length (takeWhile notSpaceOrBrace (remaining stream))\<rparr>"
  | "r = ElseKeyword" "t = KEYWORD" "handlebarsKind this \<noteq> HTML" "this' = this"
      "prefix ''else'' (remaining stream)" "stream' = stream\<lparr>pos := pos stream + 4\<rparr>"
  | "r = Variable" "t = VARIABLE" "handlebarsKind this \<noteq> HTML" "this' = this"
      "takeWhile notSpaceOrBrace (remaining stream) \<noteq> []"
      "stream' = stream\<lparr>pos := pos stream + length (takeWhile notSpaceOrBrace (remaining stream))\<rparr>"
  | "r = Delegated" "superTokenize super this stream = (r, t, this', stream')"
proof (cases "handlebarsKind this = HTML")
  case True
  with assms have "tokenizeHTML super this stream = (r, t, this', stream')"
    by (simp add: tokenize_def)
  from tokenizeHTML_cases [OF this] True show thesis
    by (elim disjE conjE) (rule that(1) that(2) that(10); simp; fail)+
next
  case False
  with assms have "tokenizeExpression super this stream = (r, t, this', stream')"
    by (simp add: tokenize_def split: States.splits)
  from tokenizeExpression_cases [OF this]
  consider "r \<in> {CloseEscaped, CloseUnescaped, Whitespace}"
      "tokenizeExpression super this stream = (r, t, this', stream')"
    | "tokenizeHelper super this stream = (r, t, this', stream')"
    using \<open>tokenizeExpression super this stream = (r, t, this', stream')\<close> by blast
  then show thesis
  proof cases
    case 1
    from tokenizeExpression_cases [OF 1(2)] 1(1) False show thesis
      by (elim disjE conjE) (rule that(3) that(4) that(5); simp; fail)+
  next
    case 2
    from tokenizeHelper_cases [OF 2] False show thesis
      by (elim disjE conjE) (rule that(6) that(7) that(8) that(9) that(10); simp; fail)+
  qed
qed

lemma tokenize_progress:
  assumes "tokenize super this stream = (r, t, this', stream')" and "r \<noteq> Delegated"
  shows "pos stream < pos stream' \<and> pos stream' \<le> length (source stream) \<and>
         (r \<in> {OpenEscaped, CloseEscaped} \<longrightarrow> pos stream' = pos stream + 2) \<and>
         (r \<in> {OpenUnescaped, CloseUnescaped} \<longrightarrow> pos stream' = pos stream + 3) \<and>
         (r = ElseKeyword \<longrightarrow> pos stream' = pos stream + 4)"
  using assms
proof (cases rule: tokenize_cases)
  case OpenUnescaped
  with prefix_remaining_bound [of "''{{{''" stream] show ?thesis by simp
next
  case OpenEscaped
  with prefix_remaining_bound [of "''{{''" stream] show ?thesis by simp
next
  case CloseEscaped
  with prefix_remaining_bound [of "''}}''" stream] show ?thesis by simp
next
  case CloseUnescaped
  with prefix_remaining_bound [of "''}}}''" stream] show ?thesis by simp
next
  case Whitespace
  with takeWhile_remaining_bound [of isWhitespace stream] show ?thesis by simp
next
  case HashKeyword
  with peek_takeWhile [of stream "CHR ''#''" notSpaceOrBrace]
    takeWhile_remaining_bound [of notSpaceOrBrace stream]
  show ?thesis by (simp add: notSpaceOrBrace_letters)
next
  case SlashKeyword
  with peek_takeWhile [of stream "CHR ''/''" notSpaceOrBrace]
    takeWhile_remaining_bound [of notSpaceOrBrace stream]
  show ?thesis by (simp add: notSpaceOrBrace_letters)
next
  case ElseKeyword
  with prefix_remaining_bound [of "''else''" stream] show ?thesis by simp
next
  case Variable
  with takeWhile_remaining_bound [of notSpaceOrBrace stream] show ?thesis by simp
next
  case Delegated
  with assms(2) show ?thesis by simp
qed

lemma tokenize_kind:
  assumes "tokenize super this stream = (r, t, this', stream')"
  shows "(r = OpenUnescaped \<longrightarrow> handlebarsKind this = HTML \<and> handlebarsKind this' = UnescapedExpression) \<and>
         (r = OpenEscaped \<longrightarrow> handlebarsKind this = HTML \<and> handlebarsKind this' = Expression) \<and>
         (r = CloseEscaped \<longrightarrow> handlebarsKind this = Expression \<and> handlebarsKind this' = HTML) \<and>
         (r = CloseUnescaped \<longrightarrow> handlebarsKind this = UnescapedExpression \<and> handlebarsKind this' = HTML) \<and>
         (r \<notin> {OpenUnescaped, OpenEscaped, CloseEscaped, CloseUnescaped} \<longrightarrow>
            handlebarsKind this' = handlebarsKind this)"
  using assms
  by (cases rule: tokenize_cases) (auto dest: superTokenize_cases)

subsection \<open>The else rule\<close>

lemma isWhitespace_e: "\<not> isWhitespace CHR ''e''"
  by (simp add: isWhitespace_def)

lemma advanceIfString_else:
  "advanceIfString ''else'' stream =
     (if prefix ''else'' (remaining stream)
      then (''else'', stream\<lparr>pos := pos stream + 4\<rparr>) else ('''', stream))"
  by (simp add: advanceIfString_prefix)

lemma tokenize_at_else:
  assumes "handlebarsKind this \<noteq> HTML" and "remaining stream = ''else'' @ c # rest"
  shows "tokenize super this stream = tokenizeElse super this stream"
proof -
  from assms(1) have "tokenize super this stream = tokenizeExpression super this stream"
    by (cases "handlebarsKind this") (simp_all add: tokenize_def)
  also from assms(2) have "\<dots> = tokenizeHelper super this stream"
    by (simp add: tokenizeExpression_def advanceIfString_prefix skipWhitespace_def
        advanceWhile_def isWhitespace_e)
  also from assms(2) have "\<dots> = tokenizeElse super this stream"
    by (simp add: tokenizeHelper_def peek_def)
  finally show ?thesis .
qed

lemma peek_after_else:
  assumes "remaining stream = ''else'' @ c # rest"
  shows "peek (stream\<lparr>pos := pos stream + 4\<rparr>) = Some c"
proof -
  have "remaining (stream\<lparr>pos := pos stream + 4\<rparr>) = drop 4 (remaining stream)"
    by (rule remaining_advance)
  with assms show ?thesis
    by (simp add: peek_def)
qed

lemma tokenize_else_keyword:
  assumes "handlebarsKind this \<noteq> HTML" and "remaining stream = ''else'' @ c # rest"
    and "c = CHR '' '' \<or> c = CHR 0x09 \<or> c = CHR ''}''"
  shows "tokenize super this stream = (ElseKeyword, KEYWORD, this, stream\<lparr>pos := pos stream + 4\<rparr>)"
proof -
  from assms(2) have "prefix ''else'' (remaining stream)"
    by simp
  with peek_after_else [OF assms(2)] assms(3)
  have "tokenizeElse super this stream = (ElseKeyword, KEYWORD, this, stream\<lparr>pos := pos stream + 4\<rparr>)"
    by (simp add: tokenizeElse_def advanceIfString_else)
  with tokenize_at_else [OF assms(1,2)] show ?thesis
    by simp
qed

lemma else_rewind:
  assumes "remaining stream = ''else'' @ c # rest"
  shows "pos (snd (advanceIfString ''else'' stream)) = pos stream + 4"
    and "goBack 4 (snd (advanceIfString ''else'' stream)) = stream"
proof -
  from assms have match: "prefix ''else'' (remaining stream)"
    by simp
  then show "pos (snd (advanceIfString ''else'' stream)) = pos stream + 4"
    by (simp add: advanceIfString_else)
  from match show "goBack 4 (snd (advanceIfString ''else'' stream)) = stream"
    by (rule goBack_else)
qed

lemma tokenize_else_identifier:
  assumes "handlebarsKind this \<noteq> HTML" and "remaining stream = ''else'' @ c # rest"
    and "c \<noteq> CHR '' ''" and "c \<noteq> CHR 0x09" and "c \<noteq> CHR ''}''"
  shows "tokenize super this stream = tokenizeVariable super this stream"
    and "tokenize super this stream =
      (Variable, VARIABLE, this,
       stream\<lparr>pos := pos stream + length (takeWhile notSpaceOrBrace (remaining stream))\<rparr>)"
proof -
  from assms(2) have match: "prefix ''else'' (remaining stream)"
    by simp
  then have rewound: "goBack 4 (snd (advanceIfString ''else'' stream)) = stream"
    by (rule goBack_else)
  from match have "goBack 4 (stream\<lparr>pos := pos stream + 4\<rparr>) = stream"
    using rewound by (simp add: advanceIfString_else)
  with match peek_after_else [OF assms(2)] assms(3-5)
  have "tokenizeElse super this stream = tokenizeVariable super this stream"
    by (simp add: tokenizeElse_def advanceIfString_else)
  with tokenize_at_else [OF assms(1,2)]
  show same: "tokenize super this stream = tokenizeVariable super this stream"
    by simp
  from assms(2) have "takeWhile notSpaceOrBrace (remaining stream) \<noteq> []"
    by (simp add: notSpaceOrBrace_letters)
  then have "tokenizeVariable super this stream =
      (Variable, VARIABLE, this,
       stream\<lparr>pos := pos stream + length (takeWhile notSpaceOrBrace (remaining stream))\<rparr>)"
    by (simp add: tokenizeVariable_def advanceWhile_def Let_def)
  with same show "tokenize super this stream =
      (Variable, VARIABLE, this,
       stream\<lparr>pos := pos stream + length (takeWhile notSpaceOrBrace (remaining stream))\<rparr>)"
    by simp
qed

lemma tokenize_at_hash:
  assumes "handlebarsKind this \<noteq> HTML" and "peek stream = Some CHR ''#''"
  shows "tokenize super this stream =
      (HashKeyword, KEYWORD, this,
       stream\<lparr>pos := pos stream + length (takeWhile notSpaceOrBrace (remaining stream))\<rparr>)"
proof -
  from assms(2) obtain rest where at: "remaining stream = CHR ''#'' # rest"
    by (auto simp: peek_Some)
  from assms(1) have "tokenize super this stream = tokenizeExpression super this stream"
    by (cases "handlebarsKind this") (simp_all add: tokenize_def)
  also from at have "\<dots> = tokenizeHelper super this stream"
    by (simp add: tokenizeExpression_def advanceIfString_prefix skipWhitespace_def
        advanceWhile_def isWhitespace_def)
  also from assms(2) have "\<dots> = (HashKeyword, KEYWORD, this,
       stream\<lparr>pos := pos stream + length (takeWhile notSpaceOrBrace (remaining stream))\<rparr>)"
    by (simp add: tokenizeHelper_def advanceWhile_def Let_def)
  finally show ?thesis .
qed

subsection \<open>The loop over a line\<close>

lemma tokenize_source:
  "source (snd (snd (snd (tokenize super this stream)))) = source stream"
  by (simp add: tokenize_def tokenizeHTML_def tokenizeExpression_def tokenizeHelper_def
        tokenizeElse_def tokenizeVariable_def superTokenize_def skipWhitespace_def
        advanceIfString_def advanceWhile_def goBack_def Let_def case_prod_beta
        split: States.splits)

lemma remaining_eos: "eos stream \<Longrightarrow> remaining stream = []"
  by (simp add: eos_def remaining_def)

lemma span_then_remaining:
  assumes "source stream1 = source stream" and "pos stream \<le> pos stream1"
  shows "span stream stream1 @ remaining stream1 = remaining stream"
proof -
  have "remaining stream1 = drop (pos stream1 - pos stream) (remaining stream)"
    using assms by (simp add: remaining_def)
  then show ?thesis
    by (simp add: span_def)
qed

lemma tokenizeLine_eos:
  "eos stream \<Longrightarrow> tokenizeLine super state stream = ([], state)"
  by (simp add: tokenizeLine.simps)

lemma tokenizeLine_step:
  assumes "\<not> eos stream" and "tokenize super state stream = (r, t, state1, stream1)"
    and "pos stream < pos stream1"
  shows "tokenizeLine super state stream =
     ((Some r, t, span stream stream1) # fst (tokenizeLine super state1 stream1),
      snd (tokenizeLine super state1 stream1))"
  using assms by (simp add: tokenizeLine.simps [of super state stream] case_prod_beta)

lemma tokenizeLine_stuck:
  assumes "\<not> eos stream" and "tokenize super state stream = (r, t, state1, stream1)"
    and "\<not> pos stream < pos stream1"
  shows "tokenizeLine super state stream =
     ((None, Plain '''', span stream (stream\<lparr>pos := pos stream + 1\<rparr>))
        # fst (tokenizeLine super state1 (stream\<lparr>pos := pos stream + 1\<rparr>)),
      snd (tokenizeLine super state1 (stream\<lparr>pos := pos stream + 1\<rparr>)))"
  using assms by (simp add: tokenizeLine.simps [of super state stream] case_prod_beta)

lemma tokenizeLine_induct [case_names eos step stuck]:
  assumes "\<And>state stream. eos stream \<Longrightarrow> P state stream"
    and "\<And>state stream r t state1 stream1.
      \<not> eos stream \<Longrightarrow> tokenize super state stream = (r, t, state1, stream1) \<Longrightarrow>
      pos stream < pos stream1 \<Longrightarrow> source stream1 = source stream \<Longrightarrow>
      P state1 stream1 \<Longrightarrow> P state stream"
    and "\<And>state stream r t state1 stream1.
      \<not> eos stream \<Longrightarrow> tokenize super state stream = (r, t, state1, stream1) \<Longrightarrow>
      \<not> pos stream < pos stream1 \<Longrightarrow>
      P state1 (stream\<lparr>pos := pos stream + 1\<rparr>) \<Longrightarrow> P state stream"
  shows "P state stream"
proof (induction "length (source stream) - pos stream" arbitrary: state stream rule: less_induct)
  case less
  show ?case
  proof (cases "eos stream")
    case True
    then show ?thesis by (rule assms(1))
  next
    case False
    obtain r t state1 stream1 where step: "tokenize super state stream = (r, t, state1, stream1)"
      by (cases "tokenize super state stream") auto
    then have same: "source stream1 = source stream"
      using tokenize_source [of super state stream] by simp
    show ?thesis
    proof (cases "pos stream < pos stream1")
      case True
      with False same have "length (source stream1) - pos stream1 < length (source stream) - pos stream"
        by (simp add: eos_def)
      then have "P state1 stream1"
        by (rule less)
      with False step True same show ?thesis
        by (rule assms(2))
    next
      case stuck: False
      from False have "length (source (stream\<lparr>pos := pos stream + 1\<rparr>)) - pos (stream\<lparr>pos := pos stream + 1\<rparr>)
          < length (source stream) - pos stream"
        by (simp add: eos_def)
      then have "P state1 (stream\<lparr>pos := pos stream + 1\<rparr>)"
        by (rule less)
      with False step stuck show ?thesis
        by (rule assms(3))
    qed
  qed
qed

lemma tokenizeLine_spans:
  "concat (map (snd \<circ> snd) (fst (tokenizeLine super state stream))) = remaining stream"
proof (induction state stream rule: tokenizeLine_induct [where super = super])
  case (eos state stream)
  then show ?case
    by (simp add: tokenizeLine_eos remaining_eos)
next
  case (step state stream r t state1 stream1)
  then have "span stream stream1 @ remaining stream1 = remaining stream"
    by (simp add: span_then_remaining)
  with step show ?case
    by (simp add: tokenizeLine_step)
next
  case (stuck state stream r t state1 stream1)
  have "span stream (stream\<lparr>pos := pos stream + 1\<rparr>) @ remaining (stream\<lparr>pos := pos stream + 1\<rparr>)
      = remaining stream"
    by (simp add: span_then_remaining)
  with stuck show ?case
    by (simp add: tokenizeLine_stuck)
qed

lemma tokenizeLine_no_defensive_step:
  assumes "\<forall>b st. \<not> eos st \<longrightarrow> pos st < snd (snd (super b st))"
  shows "\<forall>tok \<in> set (fst (tokenizeLine super state stream)). fst tok \<noteq> None"
proof (induction state stream rule: tokenizeLine_induct [where super = super])
  case (eos state stream)
  then show ?case
    by (simp add: tokenizeLine_eos)
next
  case (step state stream r t state1 stream1)
  then show ?case
    by (simp add: tokenizeLine_step)
next
  case (stuck state stream r t state1 stream1)
  have "pos stream < pos stream1"
  proof (cases "r = Delegated")
    case False
    with stuck(2) show ?thesis
      by (simp add: tokenize_progress)
  next
    case True
    with stuck(2) have "superTokenize super state stream = (r, t, state1, stream1)"
      by (cases rule: tokenize_cases) simp_all
    then have "pos stream1 = snd (snd (super (State.truncate state) stream))"
      by (simp add: superTokenize_cases)
    with assms stuck(1) show ?thesis
      by simp
  qed
  with stuck(3) show ?case
    by simp
qed

lemma tokenizeLine_kind:
  assumes "\<forall>tok \<in> set (fst (tokenizeLine super state stream)).
             fst tok \<notin> Some ` {OpenUnescaped, OpenEscaped, CloseEscaped, CloseUnescaped}"
  shows "handlebarsKind (snd (tokenizeLine super state stream)) = handlebarsKind state"
  using assms
proof (induction state stream rule: tokenizeLine_induct [where super = super])
  case (eos state stream)
  then show ?case
    by (simp add: tokenizeLine_eos)
next
  case (step state stream r t state1 stream1)
  from step(6) step(1-3)
  have quiet: "r \<notin> {OpenUnescaped, OpenEscaped, CloseEscaped, CloseUnescaped}"
    and rest: "\<forall>tok \<in> set (fst (tokenizeLine super state1 stream1)).
             fst tok \<notin> Some ` {OpenUnescaped, OpenEscaped, CloseEscaped, CloseUnescaped}"
    by (simp_all add: tokenizeLine_step)
  from tokenize_kind [OF step(2)] quiet have "handlebarsKind state1 = handlebarsKind state"
    by blast
  with step(5) [OF rest] step(1-3) show ?case
    by (simp add: tokenizeLine_step)
next
  case (stuck state stream r t state1 stream1)
  from stuck(5) stuck(1-3)
  have rest: "\<forall>tok \<in> set (fst (tokenizeLine super state1 (stream\<lparr>pos := pos stream + 1\<rparr>))).
             fst tok \<notin> Some ` {OpenUnescaped, OpenEscaped, CloseEscaped, CloseUnescaped}"
    by (simp add: tokenizeLine_stuck)
  from tokenize_progress [OF stuck(2)] stuck(3) have "r = Delegated"
    by blast
  with tokenize_kind [OF stuck(2)] have "handlebarsKind state1 = handlebarsKind state"
    by simp
  with stuck(4) [OF rest] stuck(1-3) show ?case
    by (simp add: tokenizeLine_stuck)
qed

lemma tokenizeLine_unterminated:
  assumes "handlebarsKind state \<noteq> HTML"
    and "\<forall>tok \<in> set (fst (tokenizeLine super state stream)).
             fst tok \<noteq> Some CloseEscaped \<and> fst tok \<noteq> Some CloseUnescaped"
  shows "handlebarsKind (snd (tokenizeLine super state stream)) = handlebarsKind state"
proof (rule tokenizeLine_kind)
  have "\<forall>tok \<in> set (fst (tokenizeLine super state stream)).
          fst tok \<noteq> Some OpenUnescaped \<and> fst tok \<noteq> Some OpenEscaped"
    using assms
  proof (induction state stream rule: tokenizeLine_induct [where super = super])
    case (eos state stream)
    then show ?case
      by (simp add: tokenizeLine_eos)
  next
    case (step state stream r t state1 stream1)
    from step(7) step(1-3)
    have quiet: "r \<noteq> CloseEscaped \<and> r \<noteq> CloseUnescaped"
      and rest: "\<forall>tok \<in> set (fst (tokenizeLine super state1 stream1)).
             fst tok \<noteq> Some CloseEscaped \<and> fst tok \<noteq> Some CloseUnescaped"
      by (simp_all add: tokenizeLine_step)
    from tokenize_kind [OF step(2)] step(6) quiet
    have "r \<noteq> OpenUnescaped \<and> r \<noteq> OpenEscaped \<and> handlebarsKind state1 = handlebarsKind state"
      by auto
    with step(5) [OF _ rest] step(6) step(1-3) show ?case
      by (simp add: tokenizeLine_step)
  next
    case (stuck state stream r t state1 stream1)
    from stuck(6) stuck(1-3)
    have rest: "\<forall>tok \<in> set (fst (tokenizeLine super state1 (stream\<lparr>pos := pos stream + 1\<rparr>))).
             fst tok \<noteq> Some CloseEscaped \<and> fst tok \<noteq> Some CloseUnescaped"
      by (simp add: tokenizeLine_stuck)
    from tokenize_progress [OF stuck(2)] stuck(3) have "r = Delegated"
      by blast
    with tokenize_kind [OF stuck(2)] have "handlebarsKind state1 = handlebarsKind state"
      by simp
    with stuck(4) [OF _ rest] stuck(5) stuck(1-3) show ?case
      by (simp add: tokenizeLine_stuck)
  qed
  with assms(2) show "\<forall>tok \<in> set (fst (tokenizeLine super state stream)).
             fst tok \<notin> Some ` {OpenUnescaped, OpenEscaped, CloseEscaped, CloseUnescaped}"
    by auto
qed

lemma tokenizeLine_nonempty_spans:
  "\<forall>tok \<in> set (fst (tokenizeLine super state stream)). snd (snd tok) \<noteq> []"
proof (induction state stream rule: tokenizeLine_induct [where super = super])
  case (eos state stream)
  then show ?case
    by (simp add: tokenizeLine_eos)
next
  case (step state stream r t state1 stream1)
  then have "span stream stream1 \<noteq> []"
    by (auto simp: span_def remaining_def eos_def)
  with step show ?case
    by (simp add: tokenizeLine_step)
next
  case (stuck state stream r t state1 stream1)
  then have "span stream (stream\<lparr>pos := pos stream + 1\<rparr>) \<noteq> []"
    by (auto simp: span_def remaining_def eos_def)
  with stuck show ?case
    by (simp add: tokenizeLine_stuck)
qed

section \<open>Properties of the state and of the tokenizer\<close>

subsection \<open>States\<close>

text \<open>
  C1. \<^verbatim>\<open>equals\<close> should tell apart two states that differ only in \<^verbatim>\<open>handlebarsKind\<close>. It
  does not: it hands the comparison to the super class, which sees the inherited fields
  only. The initial state and the same state inside an expression compare equal.
\<close>

theorem equals_ignores_handlebarsKind:
  "equals (getInitialState ''handlebars'')
     (IHandlebarsState ((getInitialState ''handlebars'')\<lparr>handlebarsKind := Expression\<rparr>)) = True"
  by (simp add: getInitialState_def newHandlebarsState_def State_equals_def State.truncate_def)

text \<open>
  C6. \<^verbatim>\<open>makeClone\<close> answers a new object with the fields of the receiver: the clone is
  another reference than the original, it holds the same discriminator and the same
  inherited fields, and an assignment to either of the two objects leaves the other as it
  was.
\<close>

theorem makeClone_independent:
  assumes "r < length h" and "makeCloneRef h r = Some (h', c)"
  shows "c \<noteq> r \<and> c < length h' \<and> h' ! r = h ! r \<and> h' ! c = h ! r \<and>
     (\<forall>f. mutate h' c f ! r = h ! r \<and> mutate h' c f ! c = f (h ! r)) \<and>
     (\<forall>f. mutate h' r f ! c = h ! r \<and> mutate h' r f ! r = f (h ! r))"
  using assms
  by (auto simp: makeCloneRef_def alloc_def mutate_def makeClone_fields nth_append)

theorem makeClone_independent_witness:
  "makeCloneRef [getInitialState ''handlebars''] 0
     = Some ([getInitialState ''handlebars'', getInitialState ''handlebars''], 1) \<and>
   mutate [getInitialState ''handlebars'', getInitialState ''handlebars''] 1
       (\<lambda>s. s\<lparr>handlebarsKind := Expression\<rparr>) ! 0 = getInitialState ''handlebars'' \<and>
   mutate [getInitialState ''handlebars'', getInitialState ''handlebars''] 0
       (\<lambda>s. s\<lparr>handlebarsKind := Expression\<rparr>) ! 1 = getInitialState ''handlebars''"
proof -
  have cloned: "makeCloneRef [getInitialState ''handlebars''] 0
      = Some ([getInitialState ''handlebars'', getInitialState ''handlebars''], 1)"
    by (simp add: makeCloneRef_def alloc_def makeClone_fields)
  have "(0::nat) < length [getInitialState ''handlebars'']"
    by simp
  from makeClone_independent [OF this cloned] cloned show ?thesis
    by simp
qed

text \<open>
  C9. \<^verbatim>\<open>getInitialState\<close> answers a state in the markup sub-mode, in the phase
  \<^verbatim>\<open>Content\<close>, with empty tag name, attribute name, embedded-content type and quote and
  with attribute-value length zero. When \<^verbatim>\<open>getLeavingNestedModeData\<close> answers data, the
  state after the nested mode is such a fresh state, and the rest of the data is what the
  super class answered; it answers nothing exactly when the super class answers nothing.
\<close>

theorem getInitialState_fresh:
  "getInitialState mid =
     \<lparr> modeId = mid, kind = Content, lastTagName = '''', lastAttributeName = '''',
       embeddedContentType = '''', attributeValueQuote = '''', attributeValueLength = 0,
       handlebarsKind = HTML \<rparr> \<and>
   (\<forall>d. getLeavingNestedModeData superLeaving mid line state = Some d \<longrightarrow>
      stateAfterNestedMode d = IHandlebarsState (getInitialState mid) \<and>
      (\<exists>d0. superLeaving line state = Some d0 \<and> nestedData d = nestedData d0)) \<and>
   (getLeavingNestedModeData superLeaving mid line state = None \<longleftrightarrow>
      superLeaving line state = None)"
  by (auto simp: getInitialState_def newHandlebarsState_def getLeavingNestedModeData_def
      split: option.splits)

theorem getInitialState_fresh_witness:
  "getLeavingNestedModeData
     (\<lambda>line state. Some \<lparr>nestedData = take 5 line, stateAfterNestedMode = state\<rparr>)
     ''handlebars'' ''x = 1</script>'' (IForeignState ''javascript'')
   = Some \<lparr>nestedData = ''x = 1'',
            stateAfterNestedMode = IHandlebarsState (getInitialState ''handlebars'')\<rparr> \<and>
   stateAfterNestedMode \<lparr>nestedData = ''x = 1'',
            stateAfterNestedMode = IHandlebarsState (getInitialState ''handlebars'')\<rparr>
   = IHandlebarsState (getInitialState ''handlebars'')"
proof -
  have leaving: "getLeavingNestedModeData
     (\<lambda>line state. Some \<lparr>nestedData = take 5 line, stateAfterNestedMode = state\<rparr>)
     ''handlebars'' ''x = 1</script>'' (IForeignState ''javascript'')
   = Some \<lparr>nestedData = ''x = 1'',
            stateAfterNestedMode = IHandlebarsState (getInitialState ''handlebars'')\<rparr>"
    by (simp add: getLeavingNestedModeData_def getInitialState_def)
  from getInitialState_fresh
    [of "''handlebars''" "\<lambda>line state. Some \<lparr>nestedData = take 5 line, stateAfterNestedMode = state\<rparr>"
      "''x = 1</script>''" "IForeignState ''javascript''"]
  have "stateAfterNestedMode \<lparr>nestedData = ''x = 1'',
            stateAfterNestedMode = IHandlebarsState (getInitialState ''handlebars'')\<rparr>
        = IHandlebarsState (getInitialState ''handlebars'')"
    using leaving by blast
  with leaving show ?thesis
    by blast
qed

subsection \<open>The sub-mode changes at delimiters only\<close>

text \<open>
  C2. The discriminator \<^verbatim>\<open>handlebarsKind\<close> changes in four return statements only: the two
  opening delimiters leave the markup sub-mode, \<^verbatim>\<open>}}\<close> leaves \<^verbatim>\<open>Expression\<close> and \<^verbatim>\<open>}}}\<close> leaves
  \<^verbatim>\<open>UnescapedExpression\<close>. After every other return statement (whitespace, the keywords
  with \<^verbatim>\<open>#\<close> and \<^verbatim>\<open>/\<close>, \<^verbatim>\<open>else\<close>, a variable, the host tokenizer) it is what it was. So over a
  whole line in which none of the four is taken the sub-mode at the end of the line is
  the sub-mode at its start, and inside an expression it is enough that no closing
  delimiter is matched: the line \<^verbatim>\<open>{{foo\<close> ends in \<^verbatim>\<open>Expression\<close>, and the next line
  \<^verbatim>\<open>bar}}\<close> resumes there and closes it.
\<close>

theorem handlebarsKind_changes_at_delimiters_only:
  "(tokenize super this stream = (r, t, this', stream') \<longrightarrow>
      (r = OpenUnescaped \<longrightarrow> handlebarsKind this = HTML \<and> handlebarsKind this' = UnescapedExpression) \<and>
      (r = OpenEscaped \<longrightarrow> handlebarsKind this = HTML \<and> handlebarsKind this' = Expression) \<and>
      (r = CloseEscaped \<longrightarrow> handlebarsKind this = Expression \<and> handlebarsKind this' = HTML) \<and>
      (r = CloseUnescaped \<longrightarrow> handlebarsKind this = UnescapedExpression \<and> handlebarsKind this' = HTML) \<and>
      (r \<notin> {OpenUnescaped, OpenEscaped, CloseEscaped, CloseUnescaped} \<longrightarrow>
         handlebarsKind this' = handlebarsKind this)) \<and>
   ((\<forall>tok \<in> set (fst (tokenizeLine super state line)).
        fst tok \<notin> Some ` {OpenUnescaped, OpenEscaped, CloseEscaped, CloseUnescaped}) \<longrightarrow>
      handlebarsKind (snd (tokenizeLine super state line)) = handlebarsKind state) \<and>
   (handlebarsKind state \<noteq> HTML \<and>
      (\<forall>tok \<in> set (fst (tokenizeLine super state line)).
        fst tok \<noteq> Some CloseEscaped \<and> fst tok \<noteq> Some CloseUnescaped) \<longrightarrow>
      handlebarsKind (snd (tokenizeLine super state line)) = handlebarsKind state) \<and>
   tokenizeLine super (getInitialState mid) \<lparr>source = ''{{foo'', pos = 0\<rparr> =
     ([(Some OpenEscaped, EMBED, ''{{''), (Some Variable, VARIABLE, ''foo'')],
      (getInitialState mid)\<lparr>handlebarsKind := Expression\<rparr>) \<and>
   tokenizeLine super ((getInitialState mid)\<lparr>handlebarsKind := Expression\<rparr>)
       \<lparr>source = ''bar}}'', pos = 0\<rparr> =
     ([(Some Variable, VARIABLE, ''bar''), (Some CloseEscaped, EMBED, ''}}'')],
      getInitialState mid)"
proof -
  have "tokenizeLine super (getInitialState mid) \<lparr>source = ''{{foo'', pos = 0\<rparr> =
     ([(Some OpenEscaped, EMBED, ''{{''), (Some Variable, VARIABLE, ''foo'')],
      (getInitialState mid)\<lparr>handlebarsKind := Expression\<rparr>)"
    by code_simp
  moreover have "tokenizeLine super ((getInitialState mid)\<lparr>handlebarsKind := Expression\<rparr>)
       \<lparr>source = ''bar}}'', pos = 0\<rparr> =
     ([(Some Variable, VARIABLE, ''bar''), (Some CloseEscaped, EMBED, ''}}'')],
      getInitialState mid)"
    by code_simp
  ultimately show ?thesis
    using tokenize_kind [of super this stream r t this' stream']
      tokenizeLine_kind [of super state line] tokenizeLine_unterminated [of state super line]
    by blast
qed

theorem handlebarsKind_changes_at_delimiters_only_witness:
  "map fst (fst (tokenizeLine oneCharHost
         ((getInitialState ''handlebars'')\<lparr>handlebarsKind := Expression\<rparr>)
         \<lparr>source = ''foo /bar'', pos = 0\<rparr>))
     = [Some Variable, Some Whitespace, Some SlashKeyword] \<and>
   handlebarsKind ((getInitialState ''handlebars'')\<lparr>handlebarsKind := Expression\<rparr>) \<noteq> HTML \<and>
   handlebarsKind (snd (tokenizeLine oneCharHost
         ((getInitialState ''handlebars'')\<lparr>handlebarsKind := Expression\<rparr>)
         \<lparr>source = ''foo /bar'', pos = 0\<rparr>)) = Expression"
proof -
  have rules: "map fst (fst (tokenizeLine oneCharHost
         ((getInitialState ''handlebars'')\<lparr>handlebarsKind := Expression\<rparr>)
         \<lparr>source = ''foo /bar'', pos = 0\<rparr>))
     = [Some Variable, Some Whitespace, Some SlashKeyword]"
    by code_simp
  have "\<forall>r \<in> set (map fst (fst (tokenizeLine oneCharHost
         ((getInitialState ''handlebars'')\<lparr>handlebarsKind := Expression\<rparr>)
         \<lparr>source = ''foo /bar'', pos = 0\<rparr>))).
      r \<notin> Some ` {OpenUnescaped, OpenEscaped, CloseEscaped, CloseUnescaped}"
    unfolding rules by simp
  then have quiet: "\<forall>tok \<in> set (fst (tokenizeLine oneCharHost
         ((getInitialState ''handlebars'')\<lparr>handlebarsKind := Expression\<rparr>)
         \<lparr>source = ''foo /bar'', pos = 0\<rparr>)).
      fst tok \<notin> Some ` {OpenUnescaped, OpenEscaped, CloseEscaped, CloseUnescaped}"
    by simp
  have inside: "handlebarsKind ((getInitialState ''handlebars'')\<lparr>handlebarsKind := Expression\<rparr>)
      = Expression"
    by simp
  have "handlebarsKind (snd (tokenizeLine oneCharHost
         ((getInitialState ''handlebars'')\<lparr>handlebarsKind := Expression\<rparr>)
         \<lparr>source = ''foo /bar'', pos = 0\<rparr>))
      = handlebarsKind ((getInitialState ''handlebars'')\<lparr>handlebarsKind := Expression\<rparr>)"
    by (rule handlebarsKind_changes_at_delimiters_only
        [where super = oneCharHost
          and state = "(getInitialState ''handlebars'')\<lparr>handlebarsKind := Expression\<rparr>"
          and line = "\<lparr>source = ''foo /bar'', pos = 0\<rparr>",
          THEN conjunct2, THEN conjunct1, THEN mp])
      (rule quiet)
  with rules inside show ?thesis
    by simp
qed

text \<open>
  C3. The two closing delimiters are not interchangeable. The return statement for \<^verbatim>\<open>}}}\<close>
  is reached only from \<^verbatim>\<open>UnescapedExpression\<close> and leads to the markup sub-mode, the one for
  \<^verbatim>\<open>}}\<close> only from \<^verbatim>\<open>Expression\<close> and leads to the markup sub-mode. A state in \<^verbatim>\<open>Expression\<close>
  after a call was in \<^verbatim>\<open>Expression\<close> before it or comes from \<^verbatim>\<open>{{\<close> in the markup sub-mode;
  it never comes from a closing delimiter. In \<^verbatim>\<open>Expression\<close> the text \<^verbatim>\<open>}}}\<close> is closed by its
  first two braces; in \<^verbatim>\<open>UnescapedExpression\<close> two braces that are not followed by a third
  close nothing.
\<close>

theorem closing_delimiters_not_interchangeable:
  assumes "tokenize super this stream = (r, t, this', stream')"
  shows "(r = CloseUnescaped \<longrightarrow>
            handlebarsKind this = UnescapedExpression \<and> handlebarsKind this' = HTML \<and>
            t = EMBED_UNESCAPED \<and> prefix ''}}}'' (remaining stream) \<and>
            pos stream' = pos stream + 3) \<and>
         (r = CloseEscaped \<longrightarrow>
            handlebarsKind this = Expression \<and> handlebarsKind this' = HTML \<and>
            t = EMBED \<and> prefix ''}}'' (remaining stream) \<and> pos stream' = pos stream + 2) \<and>
         (handlebarsKind this' = Expression \<longrightarrow>
            r \<noteq> CloseUnescaped \<and> r \<noteq> CloseEscaped \<and>
            (handlebarsKind this = Expression \<or> handlebarsKind this = HTML \<and> r = OpenEscaped)) \<and>
         (handlebarsKind this = Expression \<and> prefix ''}}'' (remaining stream) \<longrightarrow>
            r = CloseEscaped) \<and>
         (handlebarsKind this = UnescapedExpression \<and> prefix ''}}}'' (remaining stream) \<longrightarrow>
            r = CloseUnescaped) \<and>
         (handlebarsKind this = UnescapedExpression \<and> \<not> prefix ''}}}'' (remaining stream) \<longrightarrow>
            handlebarsKind this' = UnescapedExpression)"
proof -
  have "handlebarsKind this = Expression \<and> prefix ''}}'' (remaining stream) \<longrightarrow> r = CloseEscaped"
    using assms by (auto simp: tokenize_def tokenizeExpression_def advanceIfString_prefix)
  moreover
  have "handlebarsKind this = UnescapedExpression \<and> prefix ''}}}'' (remaining stream) \<longrightarrow>
      r = CloseUnescaped"
    using assms by (auto simp: tokenize_def tokenizeExpression_def advanceIfString_prefix)
  moreover
  have "(r = CloseUnescaped \<longrightarrow>
            handlebarsKind this = UnescapedExpression \<and> handlebarsKind this' = HTML \<and>
            t = EMBED_UNESCAPED \<and> prefix ''}}}'' (remaining stream) \<and>
            pos stream' = pos stream + 3) \<and>
         (r = CloseEscaped \<longrightarrow>
            handlebarsKind this = Expression \<and> handlebarsKind this' = HTML \<and>
            t = EMBED \<and> prefix ''}}'' (remaining stream) \<and> pos stream' = pos stream + 2) \<and>
         (handlebarsKind this' = Expression \<longrightarrow>
            r \<noteq> CloseUnescaped \<and> r \<noteq> CloseEscaped \<and>
            (handlebarsKind this = Expression \<or> handlebarsKind this = HTML \<and> r = OpenEscaped)) \<and>
         (handlebarsKind this = UnescapedExpression \<and> \<not> prefix ''}}}'' (remaining stream) \<longrightarrow>
            handlebarsKind this' = UnescapedExpression)"
    using assms by (cases rule: tokenize_cases) (auto dest: superTokenize_cases)
  ultimately show ?thesis
    by blast
qed

theorem closing_delimiters_not_interchangeable_witness:
  "tokenize oneCharHost ((getInitialState ''handlebars'')\<lparr>handlebarsKind := Expression\<rparr>)
       \<lparr>source = ''{{a}}}'', pos = 3\<rparr>
     = (CloseEscaped, EMBED, getInitialState ''handlebars'', \<lparr>source = ''{{a}}}'', pos = 5\<rparr>) \<and>
   handlebarsKind (getInitialState ''handlebars'') = HTML \<and>
   prefix ''}}'' (remaining \<lparr>source = ''{{a}}}'', pos = 3\<rparr>) \<and>
   pos \<lparr>source = ''{{a}}}'', pos = 5\<rparr> = pos \<lparr>source = ''{{a}}}'', pos = 3\<rparr> + 2"
proof -
  have step: "tokenize oneCharHost ((getInitialState ''handlebars'')\<lparr>handlebarsKind := Expression\<rparr>)
       \<lparr>source = ''{{a}}}'', pos = 3\<rparr>
     = (CloseEscaped, EMBED, getInitialState ''handlebars'', \<lparr>source = ''{{a}}}'', pos = 5\<rparr>)"
    by code_simp
  from closing_delimiters_not_interchangeable [OF step] show ?thesis
    using step by simp
qed

text \<open>
  C5. In the markup sub-mode \<^verbatim>\<open>tokenize\<close> tries \<^verbatim>\<open>{{{\<close> first: on a match the token is
  \<^verbatim>\<open>EMBED_UNESCAPED\<close>, the sub-mode becomes \<^verbatim>\<open>UnescapedExpression\<close> and three characters are
  consumed. Only otherwise it tries \<^verbatim>\<open>{{\<close>: the token is \<^verbatim>\<open>EMBED\<close>, the sub-mode becomes
  \<^verbatim>\<open>Expression\<close> and two characters are consumed. When neither matches, the host tokenizer is
  called on the inherited fields and on the cursor as they were, and the result is its
  answer: its token type, the inherited fields as it leaves them, still in the markup
  sub-mode, and the cursor where it leaves it. A text that starts with \<^verbatim>\<open>{{{\<close> is never
  answered with \<^verbatim>\<open>EMBED\<close>.
\<close>

theorem tokenize_HTML_order:
  assumes "handlebarsKind this = HTML"
  shows "tokenize super this stream =
     (if prefix ''{{{'' (remaining stream)
      then (OpenUnescaped, EMBED_UNESCAPED, this\<lparr>handlebarsKind := UnescapedExpression\<rparr>,
            stream\<lparr>pos := pos stream + 3\<rparr>)
      else if prefix ''{{'' (remaining stream)
      then (OpenEscaped, EMBED, this\<lparr>handlebarsKind := Expression\<rparr>,
            stream\<lparr>pos := pos stream + 2\<rparr>)
      else
        (case super
            \<lparr> modeId = modeId this, kind = kind this, lastTagName = lastTagName this,
              lastAttributeName = lastAttributeName this,
              embeddedContentType = embeddedContentType this,
              attributeValueQuote = attributeValueQuote this,
              attributeValueLength = attributeValueLength this \<rparr>
            stream of
           (t, b, p) \<Rightarrow>
             (Delegated, t,
              \<lparr> modeId = modeId b, kind = kind b, lastTagName = lastTagName b,
                lastAttributeName = lastAttributeName b,
                embeddedContentType = embeddedContentType b,
                attributeValueQuote = attributeValueQuote b,
                attributeValueLength = attributeValueLength b, handlebarsKind = HTML \<rparr>,
              stream\<lparr>pos := p\<rparr>))) \<and>
     (prefix ''{{{'' (remaining stream) \<longrightarrow> fst (snd (tokenize super this stream)) \<noteq> EMBED)"
proof -
  have inherited: "State.truncate this =
      \<lparr> modeId = modeId this, kind = kind this, lastTagName = lastTagName this,
        lastAttributeName = lastAttributeName this,
        embeddedContentType = embeddedContentType this,
        attributeValueQuote = attributeValueQuote this,
        attributeValueLength = attributeValueLength this \<rparr>"
    by (simp add: State.truncate_def)
  have written: "withInherited b this =
      \<lparr> modeId = modeId b, kind = kind b, lastTagName = lastTagName b,
        lastAttributeName = lastAttributeName b,
        embeddedContentType = embeddedContentType b,
        attributeValueQuote = attributeValueQuote b,
        attributeValueLength = attributeValueLength b, handlebarsKind = HTML \<rparr>" for b
    using assms by (cases this) (simp add: withInherited_def)
  have "superTokenize super this stream =
      (case super
          \<lparr> modeId = modeId this, kind = kind this, lastTagName = lastTagName this,
            lastAttributeName = lastAttributeName this,
            embeddedContentType = embeddedContentType this,
            attributeValueQuote = attributeValueQuote this,
            attributeValueLength = attributeValueLength this \<rparr>
          stream of
         (t, b, p) \<Rightarrow>
           (Delegated, t,
            \<lparr> modeId = modeId b, kind = kind b, lastTagName = lastTagName b,
              lastAttributeName = lastAttributeName b,
              embeddedContentType = embeddedContentType b,
              attributeValueQuote = attributeValueQuote b,
              attributeValueLength = attributeValueLength b, handlebarsKind = HTML \<rparr>,
            stream\<lparr>pos := p\<rparr>))"
    by (simp only: superTokenize_def inherited written)
  with assms show ?thesis
    by (simp add: tokenize_def tokenizeHTML_def advanceIfString_prefix)
qed

theorem tokenize_HTML_order_witness:
  "handlebarsKind (getInitialState ''handlebars'') = HTML \<and>
   tokenize (\<lambda>b stream. (Plain ''tag'', b\<lparr>lastTagName := ''p''\<rparr>, pos stream + 3))
       (getInitialState ''handlebars'') \<lparr>source = ''<p>{{{body}}}</p>'', pos = 0\<rparr>
     = (Delegated, Plain ''tag'', (getInitialState ''handlebars'')\<lparr>lastTagName := ''p''\<rparr>,
        \<lparr>source = ''<p>{{{body}}}</p>'', pos = 3\<rparr>) \<and>
   tokenize (\<lambda>b stream. (Plain ''tag'', b\<lparr>lastTagName := ''p''\<rparr>, pos stream + 3))
       (getInitialState ''handlebars'') \<lparr>source = ''<p>{{{body}}}</p>'', pos = 3\<rparr>
     = (OpenUnescaped, EMBED_UNESCAPED,
        (getInitialState ''handlebars'')\<lparr>handlebarsKind := UnescapedExpression\<rparr>,
        \<lparr>source = ''<p>{{{body}}}</p>'', pos = 6\<rparr>)"
proof -
  have markup: "handlebarsKind (getInitialState ''handlebars'') = HTML"
    by (simp add: getInitialState_def newHandlebarsState_def)
  note order = tokenize_HTML_order [OF markup,
      of "\<lambda>b stream. (Plain ''tag'', b\<lparr>lastTagName := ''p''\<rparr>, pos stream + 3)", THEN conjunct1]
  have host: "tokenize (\<lambda>b stream. (Plain ''tag'', b\<lparr>lastTagName := ''p''\<rparr>, pos stream + 3))
       (getInitialState ''handlebars'') \<lparr>source = ''<p>{{{body}}}</p>'', pos = 0\<rparr>
     = (Delegated, Plain ''tag'', (getInitialState ''handlebars'')\<lparr>lastTagName := ''p''\<rparr>,
        \<lparr>source = ''<p>{{{body}}}</p>'', pos = 3\<rparr>)"
    using order [of "\<lparr>source = ''<p>{{{body}}}</p>'', pos = 0\<rparr>"]
    by (simp add: remaining_def getInitialState_def newHandlebarsState_def)
  have braces: "tokenize (\<lambda>b stream. (Plain ''tag'', b\<lparr>lastTagName := ''p''\<rparr>, pos stream + 3))
       (getInitialState ''handlebars'') \<lparr>source = ''<p>{{{body}}}</p>'', pos = 3\<rparr>
     = (OpenUnescaped, EMBED_UNESCAPED,
        (getInitialState ''handlebars'')\<lparr>handlebarsKind := UnescapedExpression\<rparr>,
        \<lparr>source = ''<p>{{{body}}}</p>'', pos = 6\<rparr>)"
    using order [of "\<lparr>source = ''<p>{{{body}}}</p>'', pos = 3\<rparr>"]
    by (simp add: remaining_def)
  from markup host braces show ?thesis
    by (intro conjI)
qed

text \<open>
  C10. When \<^verbatim>\<open>tokenize\<close> answers from one of its own return statements, that is without
  calling the host tokenizer, the cursor has moved forward and stays within the line: a
  delimiter takes two or three characters, \<^verbatim>\<open>else\<close> four, all others at least one. The text
  of the token is never empty.
\<close>

theorem template_token_advances:
  assumes "tokenize super this stream = (r, t, this', stream')" and "r \<noteq> Delegated"
  shows "pos stream < pos stream' \<and> pos stream' \<le> length (source stream) \<and>
         source stream' = source stream \<and> span stream stream' \<noteq> [] \<and>
         (r \<in> {OpenEscaped, CloseEscaped} \<longrightarrow> pos stream' = pos stream + 2) \<and>
         (r \<in> {OpenUnescaped, CloseUnescaped} \<longrightarrow> pos stream' = pos stream + 3) \<and>
         (r = ElseKeyword \<longrightarrow> pos stream' = pos stream + 4)"
proof -
  note forward = tokenize_progress [OF assms]
  have same: "source stream' = source stream"
    using assms(1) tokenize_source [of super this stream] by simp
  from forward have bounds: "pos stream < pos stream'" "pos stream' \<le> length (source stream)"
    by simp_all
  then have "length (span stream stream') = pos stream' - pos stream"
    by (auto simp: span_def remaining_def min_def)
  with bounds have "span stream stream' \<noteq> []"
    by auto
  with forward same show ?thesis
    by blast
qed

theorem template_token_advances_witness:
  "tokenize oneCharHost ((getInitialState ''handlebars'')\<lparr>handlebarsKind := Expression\<rparr>)
       \<lparr>source = ''{{else}}'', pos = 2\<rparr>
     = (ElseKeyword, KEYWORD, (getInitialState ''handlebars'')\<lparr>handlebarsKind := Expression\<rparr>,
        \<lparr>source = ''{{else}}'', pos = 6\<rparr>) \<and>
   ElseKeyword \<noteq> Delegated \<and>
   pos \<lparr>source = ''{{else}}'', pos = 2\<rparr> < pos \<lparr>source = ''{{else}}'', pos = 6\<rparr> \<and>
   span \<lparr>source = ''{{else}}'', pos = 2\<rparr> \<lparr>source = ''{{else}}'', pos = 6\<rparr> \<noteq> []"
proof -
  have step: "tokenize oneCharHost ((getInitialState ''handlebars'')\<lparr>handlebarsKind := Expression\<rparr>)
       \<lparr>source = ''{{else}}'', pos = 2\<rparr>
     = (ElseKeyword, KEYWORD, (getInitialState ''handlebars'')\<lparr>handlebarsKind := Expression\<rparr>,
        \<lparr>source = ''{{else}}'', pos = 6\<rparr>)"
    by code_simp
  have own: "ElseKeyword \<noteq> Delegated"
    by simp
  from template_token_advances [OF step own] step show ?thesis
    by simp
qed

subsection \<open>Keywords and variables\<close>

text \<open>
  C4. Inside an expression, at the text \<^verbatim>\<open>else\<close> followed by a space, a tab or \<^verbatim>\<open>}\<close>, the
  token is \<^verbatim>\<open>KEYWORD\<close> and the cursor stands behind the four characters. Followed by any
  other character, the cursor, which went forward by four, goes back by four to where it
  was, and the call is the variable rule at that place: the token is \<^verbatim>\<open>VARIABLE\<close> and it
  takes the whole run of characters that are neither whitespace nor \<^verbatim>\<open>}\<close>. The line
  \<^verbatim>\<open>{{else}}\<close> gives \<^verbatim>\<open>EMBED\<close>, \<^verbatim>\<open>KEYWORD\<close>, \<^verbatim>\<open>EMBED\<close>, and \<^verbatim>\<open>{{elseValue}}\<close> gives \<^verbatim>\<open>EMBED\<close>,
  \<^verbatim>\<open>VARIABLE\<close> for \<^verbatim>\<open>elseValue\<close>, \<^verbatim>\<open>EMBED\<close>.
\<close>

theorem else_keyword_or_identifier:
  "(handlebarsKind this \<in> {Expression, UnescapedExpression} \<and>
    remaining stream = ''else'' @ c # rest \<and>
    (c = CHR '' '' \<or> c = CHR 0x09 \<or> c = CHR ''}'') \<longrightarrow>
      tokenize super this stream =
        (ElseKeyword, KEYWORD, this, stream\<lparr>pos := pos stream + 4\<rparr>)) \<and>
   (handlebarsKind this \<in> {Expression, UnescapedExpression} \<and>
    remaining stream = ''else'' @ c # rest \<and>
    c \<noteq> CHR '' '' \<and> c \<noteq> CHR 0x09 \<and> c \<noteq> CHR ''}'' \<longrightarrow>
      pos (snd (advanceIfString ''else'' stream)) = pos stream + 4 \<and>
      goBack 4 (snd (advanceIfString ''else'' stream)) = stream \<and>
      tokenize super this stream = tokenizeVariable super this stream \<and>
      tokenize super this stream =
        (Variable, VARIABLE, this,
         stream\<lparr>pos := pos stream + length (takeWhile notSpaceOrBrace (remaining stream))\<rparr>)) \<and>
   tokenizeLine super (getInitialState mid) \<lparr>source = ''{{else}}'', pos = 0\<rparr> =
     ([(Some OpenEscaped, EMBED, ''{{''), (Some ElseKeyword, KEYWORD, ''else''),
       (Some CloseEscaped, EMBED, ''}}'')],
      getInitialState mid) \<and>
   tokenizeLine super (getInitialState mid) \<lparr>source = ''{{elseValue}}'', pos = 0\<rparr> =
     ([(Some OpenEscaped, EMBED, ''{{''), (Some Variable, VARIABLE, ''elseValue''),
       (Some CloseEscaped, EMBED, ''}}'')],
      getInitialState mid)"
proof -
  have inside: "handlebarsKind this \<in> {Expression, UnescapedExpression} \<longleftrightarrow> handlebarsKind this \<noteq> HTML"
    by (cases "handlebarsKind this") simp_all
  have "tokenizeLine super (getInitialState mid) \<lparr>source = ''{{else}}'', pos = 0\<rparr> =
     ([(Some OpenEscaped, EMBED, ''{{''), (Some ElseKeyword, KEYWORD, ''else''),
       (Some CloseEscaped, EMBED, ''}}'')],
      getInitialState mid)"
    by code_simp
  moreover
  have "tokenizeLine super (getInitialState mid) \<lparr>source = ''{{elseValue}}'', pos = 0\<rparr> =
     ([(Some OpenEscaped, EMBED, ''{{''), (Some Variable, VARIABLE, ''elseValue''),
       (Some CloseEscaped, EMBED, ''}}'')],
      getInitialState mid)"
    by code_simp
  ultimately show ?thesis
    using inside tokenize_else_keyword [where this = this and stream = stream and super = super]
      tokenize_else_identifier [where this = this and stream = stream and super = super]
      else_rewind [where stream = stream]
    by blast
qed

theorem else_keyword_or_identifier_witness:
  "handlebarsKind ((getInitialState ''handlebars'')\<lparr>handlebarsKind := Expression\<rparr>)
     \<in> {Expression, UnescapedExpression} \<and>
   remaining \<lparr>source = ''{{else}}'', pos = 2\<rparr> = ''else'' @ CHR ''}'' # ''}'' \<and>
   tokenize oneCharHost ((getInitialState ''handlebars'')\<lparr>handlebarsKind := Expression\<rparr>)
       \<lparr>source = ''{{else}}'', pos = 2\<rparr>
     = (ElseKeyword, KEYWORD, (getInitialState ''handlebars'')\<lparr>handlebarsKind := Expression\<rparr>,
        \<lparr>source = ''{{else}}'', pos = 6\<rparr>) \<and>
   remaining \<lparr>source = ''{{elseValue}}'', pos = 2\<rparr> = ''else'' @ CHR ''V'' # ''alue}}'' \<and>
   tokenize oneCharHost ((getInitialState ''handlebars'')\<lparr>handlebarsKind := Expression\<rparr>)
       \<lparr>source = ''{{elseValue}}'', pos = 2\<rparr>
     = (Variable, VARIABLE, (getInitialState ''handlebars'')\<lparr>handlebarsKind := Expression\<rparr>,
        \<lparr>source = ''{{elseValue}}'', pos = 11\<rparr>)"
proof -
  have inside: "handlebarsKind ((getInitialState ''handlebars'')\<lparr>handlebarsKind := Expression\<rparr>)
     \<in> {Expression, UnescapedExpression}"
    by simp
  have atKeyword: "remaining \<lparr>source = ''{{else}}'', pos = 2\<rparr> = ''else'' @ CHR ''}'' # ''}''"
    by (simp add: remaining_def)
  have atName: "remaining \<lparr>source = ''{{elseValue}}'', pos = 2\<rparr> = ''else'' @ CHR ''V'' # ''alue}}''"
    by (simp add: remaining_def)
  have "tokenize oneCharHost ((getInitialState ''handlebars'')\<lparr>handlebarsKind := Expression\<rparr>)
       \<lparr>source = ''{{else}}'', pos = 2\<rparr>
     = (ElseKeyword, KEYWORD, (getInitialState ''handlebars'')\<lparr>handlebarsKind := Expression\<rparr>,
        \<lparr>source = ''{{else}}'', pos = 2\<rparr>\<lparr>pos := pos \<lparr>source = ''{{else}}'', pos = 2\<rparr> + 4\<rparr>)"
    by (rule else_keyword_or_identifier
        [of "(getInitialState ''handlebars'')\<lparr>handlebarsKind := Expression\<rparr>"
          "\<lparr>source = ''{{else}}'', pos = 2\<rparr>" "CHR ''}''" "''}''" oneCharHost,
          THEN conjunct1, THEN mp])
      (simp add: remaining_def)
  then have first: "tokenize oneCharHost ((getInitialState ''handlebars'')\<lparr>handlebarsKind := Expression\<rparr>)
       \<lparr>source = ''{{else}}'', pos = 2\<rparr>
     = (ElseKeyword, KEYWORD, (getInitialState ''handlebars'')\<lparr>handlebarsKind := Expression\<rparr>,
        \<lparr>source = ''{{else}}'', pos = 6\<rparr>)"
    by simp
  have "pos (snd (advanceIfString ''else'' \<lparr>source = ''{{elseValue}}'', pos = 2\<rparr>))
        = pos \<lparr>source = ''{{elseValue}}'', pos = 2\<rparr> + 4 \<and>
      goBack 4 (snd (advanceIfString ''else'' \<lparr>source = ''{{elseValue}}'', pos = 2\<rparr>))
        = \<lparr>source = ''{{elseValue}}'', pos = 2\<rparr> \<and>
      tokenize oneCharHost ((getInitialState ''handlebars'')\<lparr>handlebarsKind := Expression\<rparr>)
          \<lparr>source = ''{{elseValue}}'', pos = 2\<rparr>
        = tokenizeVariable oneCharHost ((getInitialState ''handlebars'')\<lparr>handlebarsKind := Expression\<rparr>)
          \<lparr>source = ''{{elseValue}}'', pos = 2\<rparr> \<and>
      tokenize oneCharHost ((getInitialState ''handlebars'')\<lparr>handlebarsKind := Expression\<rparr>)
          \<lparr>source = ''{{elseValue}}'', pos = 2\<rparr>
        = (Variable, VARIABLE, (getInitialState ''handlebars'')\<lparr>handlebarsKind := Expression\<rparr>,
           \<lparr>source = ''{{elseValue}}'', pos = 2\<rparr>
             \<lparr>pos := pos \<lparr>source = ''{{elseValue}}'', pos = 2\<rparr>
                + length (takeWhile notSpaceOrBrace (remaining \<lparr>source = ''{{elseValue}}'', pos = 2\<rparr>))\<rparr>)"
    by (rule else_keyword_or_identifier
        [of "(getInitialState ''handlebars'')\<lparr>handlebarsKind := Expression\<rparr>"
          "\<lparr>source = ''{{elseValue}}'', pos = 2\<rparr>" "CHR ''V''" "''alue}}''" oneCharHost,
          THEN conjunct2, THEN conjunct1, THEN mp])
      (simp add: remaining_def)
  then have "tokenize oneCharHost ((getInitialState ''handlebars'')\<lparr>handlebarsKind := Expression\<rparr>)
          \<lparr>source = ''{{elseValue}}'', pos = 2\<rparr>
        = (Variable, VARIABLE, (getInitialState ''handlebars'')\<lparr>handlebarsKind := Expression\<rparr>,
           \<lparr>source = ''{{elseValue}}'', pos = 2\<rparr>
             \<lparr>pos := pos \<lparr>source = ''{{elseValue}}'', pos = 2\<rparr>
                + length (takeWhile notSpaceOrBrace (remaining \<lparr>source = ''{{elseValue}}'', pos = 2\<rparr>))\<rparr>)"
    by (elim conjE)
  moreover have "\<lparr>source = ''{{elseValue}}'', pos = 2\<rparr>
          \<lparr>pos := pos \<lparr>source = ''{{elseValue}}'', pos = 2\<rparr>
             + length (takeWhile notSpaceOrBrace (remaining \<lparr>source = ''{{elseValue}}'', pos = 2\<rparr>))\<rparr>
      = \<lparr>source = ''{{elseValue}}'', pos = 11\<rparr>"
    by (simp add: remaining_def notSpaceOrBrace_def isWhitespace_def)
  ultimately have second: "tokenize oneCharHost ((getInitialState ''handlebars'')\<lparr>handlebarsKind := Expression\<rparr>)
       \<lparr>source = ''{{elseValue}}'', pos = 2\<rparr>
     = (Variable, VARIABLE, (getInitialState ''handlebars'')\<lparr>handlebarsKind := Expression\<rparr>,
        \<lparr>source = ''{{elseValue}}'', pos = 11\<rparr>)"
    by (simp only:)
  show ?thesis
    by (intro conjI inside atKeyword first atName second)
qed

text \<open>
  C7, as the claim states it: the line \<^verbatim>\<open>{{#if cond}}\<close> would give exactly the four token
  types \<^verbatim>\<open>EMBED\<close>, \<^verbatim>\<open>KEYWORD\<close>, \<^verbatim>\<open>VARIABLE\<close>, \<^verbatim>\<open>EMBED\<close>. It gives five: the blank between
  \<^verbatim>\<open>#if\<close> and \<^verbatim>\<open>cond\<close> is a token of its own, with the empty type.
\<close>

theorem block_helper_tokens_counterexample:
  "map (fst \<circ> snd)
     (fst (tokenizeLine oneCharHost (getInitialState ''handlebars'')
        \<lparr>source = ''{{#if cond}}'', pos = 0\<rparr>))
   \<noteq> [EMBED, KEYWORD, VARIABLE, EMBED]"
  by code_simp

text \<open>
  C7, amended. From the initial state the line \<^verbatim>\<open>{{#if cond}}\<close> gives \<^verbatim>\<open>EMBED\<close>, \<^verbatim>\<open>KEYWORD\<close>
  for \<^verbatim>\<open>#if\<close>, the empty type for the blank, \<^verbatim>\<open>VARIABLE\<close> for \<^verbatim>\<open>cond\<close>, \<^verbatim>\<open>EMBED\<close>, and ends
  in the markup sub-mode; without the token of the blank these are \<^verbatim>\<open>EMBED\<close>, \<^verbatim>\<open>KEYWORD\<close>,
  \<^verbatim>\<open>VARIABLE\<close>, \<^verbatim>\<open>EMBED\<close>. Inside an expression, at \<^verbatim>\<open>#\<close>, the token is \<^verbatim>\<open>KEYWORD\<close>, it takes
  the whole run of characters that are neither whitespace nor \<^verbatim>\<open>}\<close>, and the state is
  unchanged.
\<close>

theorem block_helper_tokens:
  "tokenizeLine super (getInitialState mid) \<lparr>source = ''{{#if cond}}'', pos = 0\<rparr> =
     ([(Some OpenEscaped, EMBED, ''{{''), (Some HashKeyword, KEYWORD, ''#if''),
       (Some Whitespace, Plain '''', '' ''), (Some Variable, VARIABLE, ''cond''),
       (Some CloseEscaped, EMBED, ''}}'')],
      getInitialState mid) \<and>
   filter (\<lambda>k. k \<noteq> Plain '''')
     (map (fst \<circ> snd)
        (fst (tokenizeLine super (getInitialState mid) \<lparr>source = ''{{#if cond}}'', pos = 0\<rparr>)))
     = [EMBED, KEYWORD, VARIABLE, EMBED] \<and>
   (handlebarsKind this \<in> {Expression, UnescapedExpression} \<and> peek stream = Some CHR ''#'' \<longrightarrow>
      tokenize super this stream =
        (HashKeyword, KEYWORD, this,
         stream\<lparr>pos := pos stream + length (takeWhile notSpaceOrBrace (remaining stream))\<rparr>))"
proof -
  have inside: "handlebarsKind this \<in> {Expression, UnescapedExpression} \<longleftrightarrow> handlebarsKind this \<noteq> HTML"
    by (cases "handlebarsKind this") simp_all
  have line: "tokenizeLine super (getInitialState mid) \<lparr>source = ''{{#if cond}}'', pos = 0\<rparr> =
     ([(Some OpenEscaped, EMBED, ''{{''), (Some HashKeyword, KEYWORD, ''#if''),
       (Some Whitespace, Plain '''', '' ''), (Some Variable, VARIABLE, ''cond''),
       (Some CloseEscaped, EMBED, ''}}'')],
      getInitialState mid)"
    by code_simp
  then have "filter (\<lambda>k. k \<noteq> Plain '''')
     (map (fst \<circ> snd)
        (fst (tokenizeLine super (getInitialState mid) \<lparr>source = ''{{#if cond}}'', pos = 0\<rparr>)))
     = [EMBED, KEYWORD, VARIABLE, EMBED]"
    by simp
  with line show ?thesis
    using inside tokenize_at_hash [where this = this and stream = stream and super = super]
    by blast
qed

theorem block_helper_tokens_witness:
  "handlebarsKind ((getInitialState ''handlebars'')\<lparr>handlebarsKind := Expression\<rparr>)
     \<in> {Expression, UnescapedExpression} \<and>
   peek \<lparr>source = ''{{#if cond}}'', pos = 2\<rparr> = Some CHR ''#'' \<and>
   tokenize oneCharHost ((getInitialState ''handlebars'')\<lparr>handlebarsKind := Expression\<rparr>)
       \<lparr>source = ''{{#if cond}}'', pos = 2\<rparr>
     = (HashKeyword, KEYWORD, (getInitialState ''handlebars'')\<lparr>handlebarsKind := Expression\<rparr>,
        \<lparr>source = ''{{#if cond}}'', pos = 5\<rparr>)"
proof -
  have inside: "handlebarsKind ((getInitialState ''handlebars'')\<lparr>handlebarsKind := Expression\<rparr>)
     \<in> {Expression, UnescapedExpression}"
    by simp
  have hash: "peek \<lparr>source = ''{{#if cond}}'', pos = 2\<rparr> = Some CHR ''#''"
    by (simp add: peek_def remaining_def)
  have "tokenize oneCharHost ((getInitialState ''handlebars'')\<lparr>handlebarsKind := Expression\<rparr>)
       \<lparr>source = ''{{#if cond}}'', pos = 2\<rparr>
     = (HashKeyword, KEYWORD, (getInitialState ''handlebars'')\<lparr>handlebarsKind := Expression\<rparr>,
        \<lparr>source = ''{{#if cond}}'', pos = 2\<rparr>
          \<lparr>pos := pos \<lparr>source = ''{{#if cond}}'', pos = 2\<rparr>
             + length (takeWhile notSpaceOrBrace (remaining \<lparr>source = ''{{#if cond}}'', pos = 2\<rparr>))\<rparr>)"
    by (rule block_helper_tokens
        [of oneCharHost "''handlebars''"
          "(getInitialState ''handlebars'')\<lparr>handlebarsKind := Expression\<rparr>"
          "\<lparr>source = ''{{#if cond}}'', pos = 2\<rparr>",
          THEN conjunct2, THEN conjunct2, THEN mp])
      (intro conjI inside hash)
  moreover have "\<lparr>source = ''{{#if cond}}'', pos = 2\<rparr>
          \<lparr>pos := pos \<lparr>source = ''{{#if cond}}'', pos = 2\<rparr>
             + length (takeWhile notSpaceOrBrace (remaining \<lparr>source = ''{{#if cond}}'', pos = 2\<rparr>))\<rparr>
      = \<lparr>source = ''{{#if cond}}'', pos = 5\<rparr>"
    by (simp add: remaining_def notSpaceOrBrace_def isWhitespace_def)
  ultimately have "tokenize oneCharHost ((getInitialState ''handlebars'')\<lparr>handlebarsKind := Expression\<rparr>)
       \<lparr>source = ''{{#if cond}}'', pos = 2\<rparr>
     = (HashKeyword, KEYWORD, (getInitialState ''handlebars'')\<lparr>handlebarsKind := Expression\<rparr>,
        \<lparr>source = ''{{#if cond}}'', pos = 5\<rparr>)"
    by (simp only:)
  with inside hash show ?thesis
    by (intro conjI)
qed

subsection \<open>Every character in one token\<close>

text \<open>
  C8. Over a whole line, from the initial state, the texts of the tokens one after the
  other are the line: no character is lost, none is in two tokens, and no token is
  empty. When the host tokenizer moves the cursor forward whenever it is called before the
  end of the line, the loop never has to step over a character by itself: every text is
  what one call of \<^verbatim>\<open>tokenize\<close> consumed.
\<close>

theorem no_character_lost_or_duplicated:
  "concat (map (snd \<circ> snd)
     (fst (tokenizeLine super (getInitialState mid) \<lparr>source = line, pos = 0\<rparr>))) = line \<and>
   (\<forall>tok \<in> set (fst (tokenizeLine super (getInitialState mid) \<lparr>source = line, pos = 0\<rparr>)).
      snd (snd tok) \<noteq> []) \<and>
   ((\<forall>b st. \<not> eos st \<longrightarrow> pos st < snd (snd (super b st))) \<longrightarrow>
    (\<forall>tok \<in> set (fst (tokenizeLine super (getInitialState mid) \<lparr>source = line, pos = 0\<rparr>)).
      fst tok \<noteq> None))"
proof -
  have "concat (map (snd \<circ> snd)
     (fst (tokenizeLine super (getInitialState mid) \<lparr>source = line, pos = 0\<rparr>)))
     = remaining \<lparr>source = line, pos = 0\<rparr>"
    by (rule tokenizeLine_spans)
  then have "concat (map (snd \<circ> snd)
     (fst (tokenizeLine super (getInitialState mid) \<lparr>source = line, pos = 0\<rparr>))) = line"
    by (simp add: remaining_def)
  then show ?thesis
    using tokenizeLine_nonempty_spans [of super "getInitialState mid" "\<lparr>source = line, pos = 0\<rparr>"]
      tokenizeLine_no_defensive_step [of super "getInitialState mid" "\<lparr>source = line, pos = 0\<rparr>"]
    by blast
qed

theorem no_character_lost_or_duplicated_witness:
  "None \<notin> set (map fst (fst (tokenizeLine oneCharHost (getInitialState ''handlebars'')
        \<lparr>source = ''<b>{{{a}b}}}</b>'', pos = 0\<rparr>))) \<and>
   concat (map (snd \<circ> snd)
     (fst (tokenizeLine oneCharHost (getInitialState ''handlebars'')
        \<lparr>source = ''<b>{{{a}b}}}</b>'', pos = 0\<rparr>))) = ''<b>{{{a}b}}}</b>''"
proof -
  note whole = no_character_lost_or_duplicated [of oneCharHost "''handlebars''" "''<b>{{{a}b}}}</b>''"]
  have forward: "\<forall>b st. \<not> eos st \<longrightarrow> pos st < snd (snd (oneCharHost b st))"
    by (simp add: oneCharHost_def)
  have "\<forall>tok \<in> set (fst (tokenizeLine oneCharHost (getInitialState ''handlebars'')
        \<lparr>source = ''<b>{{{a}b}}}</b>'', pos = 0\<rparr>)). fst tok \<noteq> None"
    by (rule whole [THEN conjunct2, THEN conjunct2, THEN mp]) (rule forward)
  then have "None \<notin> set (map fst (fst (tokenizeLine oneCharHost (getInitialState ''handlebars'')
        \<lparr>source = ''<b>{{{a}b}}}</b>'', pos = 0\<rparr>)))"
    by auto
  with whole [THEN conjunct1] show ?thesis
    by (intro conjI)
qed

end
